theory Spec2Isabelle
  imports Main "HOL-Library.Word" "HOL-Library.Signed_Division"
begin

section \<open>The event loop of main.go\<close>

text \<open>
  The development embeds the \<^verbatim>\<open>for { ... }\<close> loop of \<^verbatim>\<open>main()\<close> (main.go, lines 176-261)
  as a function on an explicit state. The globals and locals the loop reads and writes are
  the fields of one record; every call the loop makes on a collaborator is appended to a
  call trace, in program order, so that claims about which calls happen, how often and in
  which order become statements about lists.

  What the outside world does during one iteration (the operator, the network, the window
  system) is the \<open>frame_input\<close> of that iteration.
\<close>

subsection \<open>Data\<close>

text \<open>One change record held by \<^verbatim>\<open>controlUpdates\<close>; its content is opaque to the loop.\<close>

type_synonym change = nat

text \<open>
  \<^verbatim>\<open>server\<close> is an \<^verbatim>\<open>ATCServer\<close>: the loop itself only ever stores
  \<^verbatim>\<open>&DisconnectedATCServer{}\<close> and asks \<^verbatim>\<open>server.Connected()\<close>.
\<close>

datatype atc_server = DisconnectedATCServer | ConnectedATCServer

text \<open>
  The modal dialogs of \<^verbatim>\<open>ui.activeModalDialogs\<close>. The only dialog the loop creates is the
  \<^verbatim>\<open>YesOrNoModalClient\<close> titled "Disconnect?" of lines 235-246; its two closures are
  defunctionalised into \<open>ok\<close> and \<open>notok\<close> below.
\<close>

datatype modal_dialog = DisconnectDialog

text \<open>What the operator does with the front modal dialog while the UI is drawn.\<close>

datatype answer = Yes | No | Pending

text \<open>
  The calls of the loop body, as they are written in the source. Getters that only supply
  an argument of another call (\<^verbatim>\<open>GetWindowTitle\<close>, \<^verbatim>\<open>GetColorScheme\<close>, \<^verbatim>\<open>DisplaySize\<close>,
  \<^verbatim>\<open>FramebufferSize\<close>, \<^verbatim>\<open>RenderedDrawData\<close>) and the wall-clock time markers are left out.
\<close>

datatype call =
    SetWindowTitle string
  | ProcessEvents
  | SendUpdates
  | GetUpdates
  | NoUpdates
  | PositionConfigUpdate "change list"
  | WmShareUpdates "change list"
  | AudioProcessUpdates "change list"
  | Reset
  | PlatformNewFrame
  | ImguiNewFrame
  | WmDrawPanes
  | DrawUI
  | ImguiRender
  | RenderImgui
  | PostRender
  | LogStats
  | ShouldStop
  | Connected
  | UiShowModalDialog
  | Disconnect
  | CancelShouldStop
  | SaveIniSettingsToMemory
  | WindowSize
  | WindowPosition
  | PromptToSaveIfChanged

text \<open>The three fields of \<^verbatim>\<open>globalConfig\<close> the loop assigns (lines 250-252).\<close>

record global_config =
  ImGuiSettings :: string
  InitialWindowSize :: "int \<times> int"
  InitialWindowPosition :: "int \<times> int"

text \<open>
  What the collaborators deliver in one iteration:
  \<^item> \<open>window_title\<close>: the result of \<^verbatim>\<open>server.GetWindowTitle()\<close>;
  \<^item> \<open>close_requested\<close>: a window-close event is among those \<^verbatim>\<open>ProcessEvents\<close> delivers;
  \<^item> \<open>received\<close>: the changes \<^verbatim>\<open>server.GetUpdates()\<close> puts into \<^verbatim>\<open>controlUpdates\<close>;
  \<^item> \<open>drawn\<close>: the changes the draw calls add ("we may add new updates in the following
    draw calls", line 201);
  \<^item> \<open>dialog_answer\<close>: the operator's action on the front modal dialog;
  \<^item> \<open>ini_settings\<close>, \<open>window_size\<close>, \<open>window_position\<close>: the results of
    \<^verbatim>\<open>imgui.SaveIniSettingsToMemory()\<close>, \<^verbatim>\<open>platform.WindowSize()\<close> and
    \<^verbatim>\<open>platform.WindowPosition()\<close>.
\<close>

record frame_input =
  window_title :: string
  close_requested :: bool
  received :: "change list"
  drawn :: "change list"
  dialog_answer :: answer
  ini_settings :: string
  window_size :: "int \<times> int"
  window_position :: "int \<times> int"

text \<open>
  The state of the loop: the locals \<^verbatim>\<open>frameIndex\<close> (a Go \<^verbatim>\<open>int\<close>, 64 bits) and
  \<^verbatim>\<open>wantExit\<close>, the flag \<^verbatim>\<open>*devmode\<close>, the globals \<^verbatim>\<open>server\<close>, \<^verbatim>\<open>controlUpdates\<close>,
  \<^verbatim>\<open>ui.activeModalDialogs\<close>, \<^verbatim>\<open>globalConfig\<close> and \<^verbatim>\<open>stats.redraws\<close>, the platform's
  stop flag (what \<^verbatim>\<open>platform.ShouldStop()\<close> returns), and the call trace.
\<close>

record main_state =
  frameIndex :: "64 word"
  wantExit :: bool
  devmode :: bool
  server :: atc_server
  shouldStop :: bool
  controlUpdates :: "change list"
  activeModalDialogs :: "modal_dialog list"
  globalConfig :: global_config
  redraws :: nat
  trace :: "call list"

definition emit :: "call \<Rightarrow> main_state \<Rightarrow> main_state" where
  "emit c s = s\<lparr>trace := trace s @ [c]\<rparr>"

subsection \<open>Collaborators\<close>

text \<open>
  Modelled from the spec: \<^verbatim>\<open>Platform.ProcessEvents\<close>, \<^verbatim>\<open>ShouldStop\<close> and
  \<^verbatim>\<open>CancelShouldStop\<close> are not part of main.go. Input pull "may set a close requested
  flag", which \<^verbatim>\<open>shouldStop()\<close> reports and \<^verbatim>\<open>cancelShouldStop()\<close> clears.
\<close>

definition platform_ProcessEvents :: "frame_input \<Rightarrow> main_state \<Rightarrow> main_state" where
  "platform_ProcessEvents i s =
     (emit ProcessEvents s)\<lparr>shouldStop := (if close_requested i then True else shouldStop s)\<rparr>"

definition platform_CancelShouldStop :: "main_state \<Rightarrow> main_state" where
  "platform_CancelShouldStop s = (emit CancelShouldStop s)\<lparr>shouldStop := False\<rparr>"

text \<open>
  Modelled from the spec: \<^verbatim>\<open>ATCServer.GetUpdates\<close> is not part of main.go. A connected
  session merges the network's changes into the shared update set; a disconnected one
  "returns empty update sets".
\<close>

definition server_GetUpdates :: "frame_input \<Rightarrow> main_state \<Rightarrow> main_state" where
  "server_GetUpdates i s =
     (emit GetUpdates s)\<lparr>controlUpdates :=
        (case server s of
           ConnectedATCServer \<Rightarrow> controlUpdates s @ received i
         | DisconnectedATCServer \<Rightarrow> controlUpdates s)\<rparr>"

text \<open>
  Modelled from the spec: \<^verbatim>\<open>ControlUpdates.NoUpdates\<close> and \<^verbatim>\<open>Reset\<close> are not part of
  main.go. \<open>isEmpty\<close> is "true iff no records have been appended since the last reset",
  and \<open>reset\<close> "clears all records".
\<close>

definition controlUpdates_NoUpdates :: "main_state \<Rightarrow> bool" where
  "controlUpdates_NoUpdates s = (controlUpdates s = [])"

definition controlUpdates_Reset :: "main_state \<Rightarrow> main_state" where
  "controlUpdates_Reset s = (emit Reset s)\<lparr>controlUpdates := []\<rparr>"

text \<open>
  Modelled from the spec: the three consumers \<^verbatim>\<open>positionConfig.Update\<close>,
  \<^verbatim>\<open>wmShareUpdates\<close> and \<^verbatim>\<open>audioProcessUpdates\<close> are not part of main.go. Each is handed
  the update set as it stands at the call and reads it ("broadcast the same update
  batch"); the call records the batch it was given.
\<close>

definition positionConfig_Update :: "main_state \<Rightarrow> main_state" where
  "positionConfig_Update s = emit (PositionConfigUpdate (controlUpdates s)) s"

definition wmShareUpdates :: "main_state \<Rightarrow> main_state" where
  "wmShareUpdates s = emit (WmShareUpdates (controlUpdates s)) s"

definition audioProcessUpdates :: "main_state \<Rightarrow> main_state" where
  "audioProcessUpdates s = emit (AudioProcessUpdates (controlUpdates s)) s"

text \<open>
  Modelled from the spec: \<^verbatim>\<open>wmDrawPanes\<close> is not part of main.go. Drawing "may discover
  and record changes as a side effect"; they are appended to the update set.
\<close>

definition wmDrawPanes :: "frame_input \<Rightarrow> main_state \<Rightarrow> main_state" where
  "wmDrawPanes i s = (emit WmDrawPanes s)\<lparr>controlUpdates := controlUpdates s @ drawn i\<rparr>"

text \<open>
  The closures of the "Disconnect?" dialog, lines 238-245:
  \<^verbatim>\<open>ok: func() { server.Disconnect(); server = &DisconnectedATCServer{} }\<close> and
  \<^verbatim>\<open>notok: func() { platform.CancelShouldStop(); wantExit = false }\<close>.
\<close>

fun ok :: "modal_dialog \<Rightarrow> main_state \<Rightarrow> main_state" where
  "ok DisconnectDialog s = (emit Disconnect s)\<lparr>server := DisconnectedATCServer\<rparr>"

fun notok :: "modal_dialog \<Rightarrow> main_state \<Rightarrow> main_state" where
  "notok DisconnectDialog s = (platform_CancelShouldStop s)\<lparr>wantExit := False\<rparr>"

text \<open>
  Modelled from the spec: \<^verbatim>\<open>uiShowModalDialog\<close> and \<^verbatim>\<open>drawUI\<close> are not part of main.go.
  A dialog that is shown joins \<^verbatim>\<open>ui.activeModalDialogs\<close> (at the back: the call passes
  \<^verbatim>\<open>false\<close>); "the modal's resolution is just another piece of UI state checked each
  iteration": while the UI is drawn the operator may resolve the front dialog, which runs
  the matching closure and removes the dialog.
\<close>

definition uiShowModalDialog :: "modal_dialog \<Rightarrow> main_state \<Rightarrow> main_state" where
  "uiShowModalDialog d s =
     (emit UiShowModalDialog s)\<lparr>activeModalDialogs := activeModalDialogs s @ [d]\<rparr>"

definition drawUI :: "frame_input \<Rightarrow> main_state \<Rightarrow> main_state" where
  "drawUI i s =
     (case activeModalDialogs s of
        [] \<Rightarrow> emit DrawUI s
      | d # ds \<Rightarrow>
          (case dialog_answer i of
             Pending \<Rightarrow> emit DrawUI s
           | Yes \<Rightarrow> ok d ((emit DrawUI s)\<lparr>activeModalDialogs := ds\<rparr>)
           | No \<Rightarrow> notok d ((emit DrawUI s)\<lparr>activeModalDialogs := ds\<rparr>)))"

text \<open>
  Modelled from the spec: \<^verbatim>\<open>globalConfig.PromptToSaveIfChanged\<close> is not part of main.go.
  It is the persistence call of the configuration collaborator ("prompt to save if
  changed"); the spec's scenarios count it and let it show no dialog of its own.
\<close>

definition globalConfig_PromptToSaveIfChanged :: "main_state \<Rightarrow> main_state" where
  "globalConfig_PromptToSaveIfChanged s = emit PromptToSaveIfChanged s"

subsection \<open>The phases of one iteration\<close>

text \<open>Line 177: \<^verbatim>\<open>platform.SetWindowTitle("vice: " + server.GetWindowTitle())\<close>.\<close>

definition title_refresh :: "frame_input \<Rightarrow> main_state \<Rightarrow> main_state" where
  "title_refresh i s = emit (SetWindowTitle (''vice: '' @ window_title i)) s"

text \<open>Lines 180-182: \<^verbatim>\<open>platform.ProcessEvents(); stats.redraws++\<close>.\<close>

definition input_pull :: "frame_input \<Rightarrow> main_state \<Rightarrow> main_state" where
  "input_pull i s = (platform_ProcessEvents i s)\<lparr>redraws := redraws s + 1\<rparr>"

text \<open>Line 194: \<^verbatim>\<open>positionConfig.SendUpdates()\<close>.\<close>

definition send_phase :: "main_state \<Rightarrow> main_state" where
  "send_phase s = emit SendUpdates s"

text \<open>Line 195: \<^verbatim>\<open>server.GetUpdates()\<close>.\<close>

definition receive_phase :: "frame_input \<Rightarrow> main_state \<Rightarrow> main_state" where
  "receive_phase i s = server_GetUpdates i s"

text \<open>
  Lines 196-204:
  \<^verbatim>\<open>if !controlUpdates.NoUpdates() { positionConfig.Update(controlUpdates);
  wmShareUpdates(controlUpdates); audioProcessUpdates(controlUpdates);
  controlUpdates.Reset() }\<close>.
\<close>

definition propagation_phase :: "main_state \<Rightarrow> main_state" where
  "propagation_phase s =
     (if \<not> controlUpdates_NoUpdates (emit NoUpdates s)
      then controlUpdates_Reset
             (audioProcessUpdates (wmShareUpdates (positionConfig_Update (emit NoUpdates s))))
      else emit NoUpdates s)"

text \<open>
  Lines 207-219: \<^verbatim>\<open>platform.NewFrame(); imgui.NewFrame(); wmDrawPanes(...); drawUI(...);
  imgui.Render(); renderer.RenderImgui(...)\<close>.
\<close>

definition draw_phase :: "frame_input \<Rightarrow> main_state \<Rightarrow> main_state" where
  "draw_phase i s =
     emit RenderImgui (emit ImguiRender
       (drawUI i (wmDrawPanes i (emit ImguiNewFrame (emit PlatformNewFrame s)))))"

text \<open>Line 222: \<^verbatim>\<open>platform.PostRender()\<close>.\<close>

definition present_phase :: "main_state \<Rightarrow> main_state" where
  "present_phase s = emit PostRender s"

text \<open>
  Lines 225-228:
  \<^verbatim>\<open>if (*devmode && frameIndex%600 == 0) || frameIndex%3600 == 0 { lg.LogStats(stats) };
  frameIndex++\<close>. Go's \<^verbatim>\<open>%\<close> truncates towards zero (\<open>smod\<close>), and \<^verbatim>\<open>++\<close> wraps.
\<close>

definition stats_period :: "bool \<Rightarrow> 64 word \<Rightarrow> bool" where
  "stats_period dev n = ((dev \<and> sint n smod 600 = 0) \<or> sint n smod 3600 = 0)"

definition stats_due :: "main_state \<Rightarrow> bool" where
  "stats_due s = stats_period (devmode s) (frameIndex s)"

definition telemetry_phase :: "main_state \<Rightarrow> main_state" where
  "telemetry_phase s =
     (if stats_due s then emit LogStats s else s)\<lparr>frameIndex := frameIndex s + 1\<rparr>"

text \<open>An iteration either falls through to the next one or leaves the loop by \<^verbatim>\<open>break\<close>.\<close>

datatype loop_step = Continue main_state | Break main_state

fun state_of :: "loop_step \<Rightarrow> main_state" where
  "state_of (Continue s) = s"
| "state_of (Break s) = s"

fun is_break :: "loop_step \<Rightarrow> bool" where
  "is_break (Continue s) = False"
| "is_break (Break s) = True"

text \<open>
  Lines 249-255, the statements after the dialog is (or is not) shown:
  \<^verbatim>\<open>globalConfig.ImGuiSettings = imgui.SaveIniSettingsToMemory();
  globalConfig.InitialWindowSize = platform.WindowSize();
  globalConfig.InitialWindowPosition = platform.WindowPosition();
  globalConfig.PromptToSaveIfChanged(renderer, platform)\<close>.
\<close>

definition store_settings :: "frame_input \<Rightarrow> main_state \<Rightarrow> main_state" where
  "store_settings i s =
     (emit SaveIniSettingsToMemory s)
       \<lparr>globalConfig := (globalConfig s)\<lparr>ImGuiSettings := ini_settings i\<rparr>\<rparr>"

definition store_size :: "frame_input \<Rightarrow> main_state \<Rightarrow> main_state" where
  "store_size i s =
     (emit WindowSize s)
       \<lparr>globalConfig := (globalConfig s)\<lparr>InitialWindowSize := window_size i\<rparr>\<rparr>"

definition store_position :: "frame_input \<Rightarrow> main_state \<Rightarrow> main_state" where
  "store_position i s =
     (emit WindowPosition s)
       \<lparr>globalConfig := (globalConfig s)\<lparr>InitialWindowPosition := window_position i\<rparr>\<rparr>"

definition grab_and_save :: "frame_input \<Rightarrow> main_state \<Rightarrow> main_state" where
  "grab_and_save i s =
     globalConfig_PromptToSaveIfChanged
       (store_position i (store_size i (store_settings i s)))"

text \<open>Lines 234-247: \<^verbatim>\<open>if server.Connected() { uiShowModalDialog(..., false) }\<close>.\<close>

definition confirm_disconnect :: "main_state \<Rightarrow> main_state" where
  "confirm_disconnect s =
     (case server s of
        ConnectedATCServer \<Rightarrow> uiShowModalDialog DisconnectDialog (emit Connected s)
      | DisconnectedATCServer \<Rightarrow> emit Connected s)"

text \<open>
  Lines 230-260:
  \<^verbatim>\<open>if platform.ShouldStop() { if !wantExit { wantExit = true; ... }
  else if len(ui.activeModalDialogs) == 0 { break } }\<close>.
\<close>

definition exit_check :: "frame_input \<Rightarrow> main_state \<Rightarrow> loop_step" where
  "exit_check i s =
     (if shouldStop s then
        (if \<not> wantExit s then
           Continue (grab_and_save i (confirm_disconnect ((emit ShouldStop s)\<lparr>wantExit := True\<rparr>)))
         else if length (activeModalDialogs s) = 0 then Break (emit ShouldStop s)
         else Continue (emit ShouldStop s))
      else Continue (emit ShouldStop s))"

text \<open>The statements of one iteration before the exit check (lines 177-228).\<close>

definition frame_body :: "frame_input \<Rightarrow> main_state \<Rightarrow> main_state" where
  "frame_body i s =
     telemetry_phase (present_phase (draw_phase i (propagation_phase
       (receive_phase i (send_phase (input_pull i (title_refresh i s)))))))"

text \<open>One iteration of the loop (lines 177-260).\<close>

definition frame :: "frame_input \<Rightarrow> main_state \<Rightarrow> loop_step" where
  "frame i s = exit_check i (frame_body i s)"

text \<open>
  The loop \<^verbatim>\<open>for { ... }\<close>, run on the inputs of the successive iterations. It either has
  left the loop by \<^verbatim>\<open>break\<close> (\<open>Exited\<close>) or is still iterating when the inputs end.
\<close>

datatype outcome = Exited main_state | Running main_state

fun final_state :: "outcome \<Rightarrow> main_state" where
  "final_state (Exited s) = s"
| "final_state (Running s) = s"

fun has_exited :: "outcome \<Rightarrow> bool" where
  "has_exited (Exited s) = True"
| "has_exited (Running s) = False"

fun main_loop :: "main_state \<Rightarrow> frame_input list \<Rightarrow> outcome" where
  "main_loop s [] = Running s"
| "main_loop s (i # is) =
     (case frame i s of
        Break s' \<Rightarrow> Exited s'
      | Continue s' \<Rightarrow> main_loop s' is)"

text \<open>
  The state in which the loop is entered (lines 103-104, 168, 173-175): iteration 0, no exit
  wanted, a disconnected session, a fresh update set, nothing traced yet. The developer
  flag and the loaded configuration are parameters.
\<close>

definition initial_state :: "bool \<Rightarrow> global_config \<Rightarrow> main_state" where
  "initial_state dev cfg =
     \<lparr>frameIndex = 0, wantExit = False, devmode = dev, server = DisconnectedATCServer,
      shouldStop = False, controlUpdates = [], activeModalDialogs = [],
      globalConfig = cfg, redraws = 0, trace = []\<rparr>"

subsection \<open>Reading the call trace\<close>

text \<open>The calls made between an earlier state and a later one.\<close>

definition calls_since :: "main_state \<Rightarrow> main_state \<Rightarrow> call list" where
  "calls_since s s' = drop (length (trace s)) (trace s')"

definition frame_calls :: "frame_input \<Rightarrow> main_state \<Rightarrow> call list" where
  "frame_calls i s = calls_since s (state_of (frame i s))"

definition loop_calls :: "frame_input list \<Rightarrow> main_state \<Rightarrow> call list" where
  "loop_calls is s = calls_since s (final_state (main_loop s is))"

text \<open>
  What happens to the front modal dialog while the UI of this iteration is drawn: nothing
  (\<open>Pending\<close>) when no dialog is active, else the operator's answer.
\<close>

definition dialog_resolution :: "frame_input \<Rightarrow> main_state \<Rightarrow> answer" where
  "dialog_resolution i s =
     (case activeModalDialogs s of [] \<Rightarrow> Pending | d # ds \<Rightarrow> dialog_answer i)"

text \<open>The calls of the statements before the exit check, and those of the exit check.\<close>

definition body_calls :: "frame_input \<Rightarrow> main_state \<Rightarrow> call list" where
  "body_calls i s = calls_since s (frame_body i s)"

definition exit_calls :: "frame_input \<Rightarrow> main_state \<Rightarrow> call list" where
  "exit_calls i s = calls_since s (state_of (exit_check i s))"

text \<open>The update set as the propagation phase finds it (at line 196).\<close>

definition batch_at_propagation :: "frame_input \<Rightarrow> main_state \<Rightarrow> change list" where
  "batch_at_propagation i s =
     controlUpdates (receive_phase i (send_phase (input_pull i (title_refresh i s))))"

text \<open>The phases of an iteration, and the phase each call belongs to.\<close>

datatype phase =
  TitleRefresh | InputPull | SendPhase | ReceivePhase | Propagation | Draw | Present
  | Telemetry | ExitCheck

fun phase_of :: "call \<Rightarrow> phase" where
  "phase_of (SetWindowTitle t) = TitleRefresh"
| "phase_of ProcessEvents = InputPull"
| "phase_of SendUpdates = SendPhase"
| "phase_of GetUpdates = ReceivePhase"
| "phase_of NoUpdates = Propagation"
| "phase_of (PositionConfigUpdate b) = Propagation"
| "phase_of (WmShareUpdates b) = Propagation"
| "phase_of (AudioProcessUpdates b) = Propagation"
| "phase_of Reset = Propagation"
| "phase_of PlatformNewFrame = Draw"
| "phase_of ImguiNewFrame = Draw"
| "phase_of WmDrawPanes = Draw"
| "phase_of DrawUI = Draw"
| "phase_of Disconnect = Draw"
| "phase_of CancelShouldStop = Draw"
| "phase_of ImguiRender = Draw"
| "phase_of RenderImgui = Draw"
| "phase_of PostRender = Present"
| "phase_of LogStats = Telemetry"
| "phase_of ShouldStop = ExitCheck"
| "phase_of Connected = ExitCheck"
| "phase_of UiShowModalDialog = ExitCheck"
| "phase_of SaveIniSettingsToMemory = ExitCheck"
| "phase_of WindowSize = ExitCheck"
| "phase_of WindowPosition = ExitCheck"
| "phase_of PromptToSaveIfChanged = ExitCheck"

text \<open>The calls that hand the update set to a consumer, and those that consume or clear it.\<close>

fun is_consumer_call :: "call \<Rightarrow> bool" where
  "is_consumer_call (PositionConfigUpdate b) = True"
| "is_consumer_call (WmShareUpdates b) = True"
| "is_consumer_call (AudioProcessUpdates b) = True"
| "is_consumer_call c = False"

fun is_update_call :: "call \<Rightarrow> bool" where
  "is_update_call Reset = True"
| "is_update_call c = is_consumer_call c"

subsection \<open>Concrete states and inputs\<close>

text \<open>
  A configuration as loaded at startup, an iteration in which nothing happens, and variants
  of it: traffic arrives, the operator closes the window, the operator answers the dialog.
  \<open>connected_state\<close> is the loop's initial state after the operator has connected.
\<close>

definition default_config :: global_config where
  "default_config =
     \<lparr>ImGuiSettings = '''', InitialWindowSize = (1920, 1080), InitialWindowPosition = (0, 0)\<rparr>"

definition quiet_input :: frame_input where
  "quiet_input =
     \<lparr>window_title = ''[Disconnected]'', close_requested = False, received = [], drawn = [],
      dialog_answer = Pending, ini_settings = ''[Window][Debug]'',
      window_size = (1280, 720), window_position = (100, 50)\<rparr>"

definition traffic_input :: frame_input where
  "traffic_input = quiet_input\<lparr>received := [7, 8]\<rparr>"

definition close_input :: frame_input where
  "close_input = quiet_input\<lparr>close_requested := True\<rparr>"

definition yes_input :: frame_input where
  "yes_input = quiet_input\<lparr>dialog_answer := Yes\<rparr>"

definition no_input :: frame_input where
  "no_input = quiet_input\<lparr>dialog_answer := No\<rparr>"

definition connected_state :: main_state where
  "connected_state = (initial_state False default_config)\<lparr>server := ConnectedATCServer\<rparr>"

text \<open>
  The state a close request leaves a connected session in: the confirmation dialog is open
  and unanswered.
\<close>

definition pending_state :: main_state where
  "pending_state = state_of (frame close_input connected_state)"

section \<open>Properties of one iteration\<close>

subsection \<open>What each phase does to the state\<close>

lemma emit_fields [simp]:
  "trace (emit c s) = trace s @ [c]"
  "frameIndex (emit c s) = frameIndex s"
  "wantExit (emit c s) = wantExit s"
  "devmode (emit c s) = devmode s"
  "server (emit c s) = server s"
  "shouldStop (emit c s) = shouldStop s"
  "controlUpdates (emit c s) = controlUpdates s"
  "activeModalDialogs (emit c s) = activeModalDialogs s"
  "globalConfig (emit c s) = globalConfig s"
  "redraws (emit c s) = redraws s"
  by (simp_all add: emit_def)

lemma ok_eq: "ok d s = (emit Disconnect s)\<lparr>server := DisconnectedATCServer\<rparr>"
  by (cases d) simp

lemma notok_eq:
  "notok d s = (emit CancelShouldStop s)\<lparr>shouldStop := False, wantExit := False\<rparr>"
  by (cases d) (simp add: platform_CancelShouldStop_def)

lemma batch_at_propagation_eq:
  "batch_at_propagation i s =
     (case server s of
        ConnectedATCServer \<Rightarrow> controlUpdates s @ received i
      | DisconnectedATCServer \<Rightarrow> controlUpdates s)"
  by (simp add: batch_at_propagation_def receive_phase_def send_phase_def input_pull_def
      title_refresh_def server_GetUpdates_def platform_ProcessEvents_def emit_def
      split: atc_server.splits)

text \<open>The state in which the draw phase starts.\<close>

lemma before_draw:
  "propagation_phase (receive_phase i (send_phase (input_pull i (title_refresh i s)))) =
     s\<lparr>shouldStop := (if close_requested i then True else shouldStop s),
       controlUpdates := [],
       redraws := redraws s + 1,
       trace := trace s @
         [SetWindowTitle (''vice: '' @ window_title i), ProcessEvents, SendUpdates, GetUpdates,
          NoUpdates] @
         (if batch_at_propagation i s = [] then []
          else [PositionConfigUpdate (batch_at_propagation i s),
                WmShareUpdates (batch_at_propagation i s),
                AudioProcessUpdates (batch_at_propagation i s), Reset])\<rparr>"
  by (simp add: batch_at_propagation_def propagation_phase_def controlUpdates_NoUpdates_def
      controlUpdates_Reset_def positionConfig_Update_def wmShareUpdates_def
      audioProcessUpdates_def receive_phase_def send_phase_def input_pull_def
      title_refresh_def server_GetUpdates_def platform_ProcessEvents_def emit_def
      split: atc_server.splits)

lemma drawUI_eq:
  "drawUI i s =
     (case dialog_resolution i s of
        Pending \<Rightarrow> s\<lparr>trace := trace s @ [DrawUI]\<rparr>
      | Yes \<Rightarrow> s\<lparr>server := DisconnectedATCServer,
                 activeModalDialogs := tl (activeModalDialogs s),
                 trace := trace s @ [DrawUI, Disconnect]\<rparr>
      | No \<Rightarrow> s\<lparr>wantExit := False, shouldStop := False,
                activeModalDialogs := tl (activeModalDialogs s),
                trace := trace s @ [DrawUI, CancelShouldStop]\<rparr>)"
  by (simp add: drawUI_def dialog_resolution_def ok_eq notok_eq emit_def
      split: list.splits answer.splits)

lemma draw_phase_eq:
  "draw_phase i s =
     (case dialog_resolution i s of
        Pending \<Rightarrow>
          s\<lparr>controlUpdates := controlUpdates s @ drawn i,
            trace := trace s @ [PlatformNewFrame, ImguiNewFrame, WmDrawPanes, DrawUI,
              ImguiRender, RenderImgui]\<rparr>
      | Yes \<Rightarrow>
          s\<lparr>server := DisconnectedATCServer,
            controlUpdates := controlUpdates s @ drawn i,
            activeModalDialogs := tl (activeModalDialogs s),
            trace := trace s @ [PlatformNewFrame, ImguiNewFrame, WmDrawPanes, DrawUI,
              Disconnect, ImguiRender, RenderImgui]\<rparr>
      | No \<Rightarrow>
          s\<lparr>wantExit := False, shouldStop := False,
            controlUpdates := controlUpdates s @ drawn i,
            activeModalDialogs := tl (activeModalDialogs s),
            trace := trace s @ [PlatformNewFrame, ImguiNewFrame, WmDrawPanes, DrawUI,
              CancelShouldStop, ImguiRender, RenderImgui]\<rparr>)"
proof -
  have r: "dialog_resolution i (wmDrawPanes i (emit ImguiNewFrame (emit PlatformNewFrame s)))
      = dialog_resolution i s"
    by (simp add: dialog_resolution_def wmDrawPanes_def)
  show ?thesis
    unfolding draw_phase_def drawUI_eq r
    by (cases "dialog_resolution i s") (simp_all add: wmDrawPanes_def emit_def)
qed

lemma after_draw_resolution:
  "dialog_resolution i
     (propagation_phase (receive_phase i (send_phase (input_pull i (title_refresh i s)))))
   = dialog_resolution i s"
  by (simp add: before_draw dialog_resolution_def)

lemma telemetry_phase_eq:
  "telemetry_phase s =
     s\<lparr>frameIndex := frameIndex s + 1,
       trace := trace s @ (if stats_due s then [LogStats] else [])\<rparr>"
  by (simp add: telemetry_phase_def emit_def)

lemma frame_body_trace:
  "trace (frame_body i s) =
     trace s @
     [SetWindowTitle (''vice: '' @ window_title i), ProcessEvents, SendUpdates, GetUpdates,
      NoUpdates] @
     (if batch_at_propagation i s = [] then []
      else [PositionConfigUpdate (batch_at_propagation i s),
            WmShareUpdates (batch_at_propagation i s),
            AudioProcessUpdates (batch_at_propagation i s), Reset]) @
     [PlatformNewFrame, ImguiNewFrame, WmDrawPanes, DrawUI] @
     (case dialog_resolution i s of
        Pending \<Rightarrow> [] | Yes \<Rightarrow> [Disconnect] | No \<Rightarrow> [CancelShouldStop]) @
     [ImguiRender, RenderImgui, PostRender] @
     (if stats_due s then [LogStats] else [])"
  unfolding frame_body_def telemetry_phase_eq present_phase_def draw_phase_eq
    after_draw_resolution
  by (cases "dialog_resolution i s") (simp_all add: before_draw stats_due_def)

lemma frame_body_fields:
  "wantExit (frame_body i s) = (if dialog_resolution i s = No then False else wantExit s)"
  "shouldStop (frame_body i s) =
     (if dialog_resolution i s = No then False
      else if close_requested i then True else shouldStop s)"
  "server (frame_body i s) =
     (if dialog_resolution i s = Yes then DisconnectedATCServer else server s)"
  "activeModalDialogs (frame_body i s) =
     (if dialog_resolution i s = Pending then activeModalDialogs s
      else tl (activeModalDialogs s))"
  "globalConfig (frame_body i s) = globalConfig s"
  "controlUpdates (frame_body i s) = drawn i"
  "frameIndex (frame_body i s) = frameIndex s + 1"
  "devmode (frame_body i s) = devmode s"
  "redraws (frame_body i s) = redraws s + 1"
  unfolding frame_body_def telemetry_phase_eq present_phase_def draw_phase_eq
    after_draw_resolution
  by (cases "dialog_resolution i s"; simp add: before_draw)+

lemma body_calls_eq:
  "body_calls i s =
     [SetWindowTitle (''vice: '' @ window_title i), ProcessEvents, SendUpdates, GetUpdates,
      NoUpdates] @
     (if batch_at_propagation i s = [] then []
      else [PositionConfigUpdate (batch_at_propagation i s),
            WmShareUpdates (batch_at_propagation i s),
            AudioProcessUpdates (batch_at_propagation i s), Reset]) @
     [PlatformNewFrame, ImguiNewFrame, WmDrawPanes, DrawUI] @
     (case dialog_resolution i s of
        Pending \<Rightarrow> [] | Yes \<Rightarrow> [Disconnect] | No \<Rightarrow> [CancelShouldStop]) @
     [ImguiRender, RenderImgui, PostRender] @
     (if stats_due s then [LogStats] else [])"
  unfolding body_calls_def calls_since_def frame_body_trace by simp

lemma exit_check_trace:
  "trace (state_of (exit_check i s)) =
     trace s @ ShouldStop #
       (if shouldStop s \<and> \<not> wantExit s
        then Connected #
          (case server s of ConnectedATCServer \<Rightarrow> [UiShowModalDialog]
           | DisconnectedATCServer \<Rightarrow> []) @
          [SaveIniSettingsToMemory, WindowSize, WindowPosition, PromptToSaveIfChanged]
        else [])"
  by (simp add: exit_check_def grab_and_save_def globalConfig_PromptToSaveIfChanged_def
      store_position_def store_size_def store_settings_def confirm_disconnect_def
      uiShowModalDialog_def emit_def split: atc_server.splits)

lemma exit_calls_eq:
  "exit_calls i s =
     ShouldStop #
       (if shouldStop s \<and> \<not> wantExit s
        then Connected #
          (case server s of ConnectedATCServer \<Rightarrow> [UiShowModalDialog]
           | DisconnectedATCServer \<Rightarrow> []) @
          [SaveIniSettingsToMemory, WindowSize, WindowPosition, PromptToSaveIfChanged]
        else [])"
  unfolding exit_calls_def calls_since_def exit_check_trace by simp

lemma exit_check_first_observed:
  assumes "shouldStop s" and "\<not> wantExit s"
  shows "exit_check i s =
     Continue (s\<lparr>wantExit := True,
       activeModalDialogs :=
         (case server s of ConnectedATCServer \<Rightarrow> activeModalDialogs s @ [DisconnectDialog]
          | DisconnectedATCServer \<Rightarrow> activeModalDialogs s),
       globalConfig := (globalConfig s)\<lparr>ImGuiSettings := ini_settings i,
         InitialWindowSize := window_size i, InitialWindowPosition := window_position i\<rparr>,
       trace := trace s @ exit_calls i s\<rparr>)"
  using assms
  by (simp add: exit_calls_eq exit_check_def grab_and_save_def
      globalConfig_PromptToSaveIfChanged_def
      store_position_def store_size_def store_settings_def confirm_disconnect_def
      uiShowModalDialog_def emit_def split: atc_server.splits)

lemma exit_check_break:
  assumes "shouldStop s" and "wantExit s" and "activeModalDialogs s = []"
  shows "exit_check i s = Break (s\<lparr>trace := trace s @ [ShouldStop]\<rparr>)"
  using assms by (simp add: exit_check_def emit_def)

lemma exit_check_waiting:
  assumes "shouldStop s" and "wantExit s" and "activeModalDialogs s \<noteq> []"
  shows "exit_check i s = Continue (s\<lparr>trace := trace s @ [ShouldStop]\<rparr>)"
  using assms by (simp add: exit_check_def emit_def)

lemma exit_check_idle:
  assumes "\<not> shouldStop s"
  shows "exit_check i s = Continue (s\<lparr>trace := trace s @ [ShouldStop]\<rparr>)"
  using assms by (simp add: exit_check_def emit_def)

lemma frame_trace:
  "trace (state_of (frame i s)) = trace s @ body_calls i s @ exit_calls i (frame_body i s)"
  by (simp add: frame_def exit_check_trace exit_calls_eq frame_body_trace body_calls_eq)

lemma frame_calls_eq:
  "frame_calls i s = body_calls i s @ exit_calls i (frame_body i s)"
  by (simp add: frame_calls_def calls_since_def frame_trace)

subsection \<open>Projections of the calls of an iteration\<close>

lemma filter_update_body:
  "filter is_update_call (body_calls i s) =
     (if batch_at_propagation i s = [] then []
      else [PositionConfigUpdate (batch_at_propagation i s),
            WmShareUpdates (batch_at_propagation i s),
            AudioProcessUpdates (batch_at_propagation i s), Reset])"
  by (simp add: body_calls_eq split: answer.splits)

lemma filter_update_exit: "filter is_update_call (exit_calls i s) = []"
  by (simp add: exit_calls_eq split: atc_server.splits)

lemma phases_body:
  "remdups_adj (map phase_of (body_calls i s)) =
     [TitleRefresh, InputPull, SendPhase, ReceivePhase, Propagation, Draw, Present] @
     (if stats_due s then [Telemetry] else [])"
  by (simp add: body_calls_eq split: answer.splits)

lemma phases_exit: "remdups_adj (map phase_of (exit_calls i s)) = [ExitCheck]"
  by (simp add: exit_calls_eq split: atc_server.splits)

lemma last_phase_body:
  "last (map phase_of (body_calls i s)) = (if stats_due s then Telemetry else Present)"
  by (simp add: body_calls_eq split: answer.splits)

lemma hd_phase_exit: "hd (map phase_of (exit_calls i s)) = ExitCheck"
  by (simp add: exit_calls_eq)

lemma count_body_calls:
  "count_list (body_calls i s) PromptToSaveIfChanged = 0"
  "count_list (body_calls i s) UiShowModalDialog = 0"
  "count_list (body_calls i s) Disconnect = (if dialog_resolution i s = Yes then 1 else 0)"
  "count_list (body_calls i s) CancelShouldStop = (if dialog_resolution i s = No then 1 else 0)"
  by (simp_all add: body_calls_eq split: answer.splits)

lemma count_exit_calls:
  "count_list (exit_calls i s) PromptToSaveIfChanged =
     (if shouldStop s \<and> \<not> wantExit s then 1 else 0)"
  "count_list (exit_calls i s) UiShowModalDialog =
     (if shouldStop s \<and> \<not> wantExit s \<and> server s = ConnectedATCServer then 1 else 0)"
  "count_list (exit_calls i s) Disconnect = 0"
  "count_list (exit_calls i s) CancelShouldStop = 0"
  by (simp_all add: exit_calls_eq split: atc_server.splits)

lemma exit_check_fields:
  "wantExit (state_of (exit_check i s)) = (if shouldStop s then True else wantExit s)"
  "shouldStop (state_of (exit_check i s)) = shouldStop s"
  "server (state_of (exit_check i s)) = server s"
  "activeModalDialogs (state_of (exit_check i s)) =
     (if shouldStop s \<and> \<not> wantExit s \<and> server s = ConnectedATCServer
      then activeModalDialogs s @ [DisconnectDialog] else activeModalDialogs s)"
  "globalConfig (state_of (exit_check i s)) =
     (if shouldStop s \<and> \<not> wantExit s
      then (globalConfig s)\<lparr>ImGuiSettings := ini_settings i,
         InitialWindowSize := window_size i, InitialWindowPosition := window_position i\<rparr>
      else globalConfig s)"
  by (simp_all add: exit_check_def grab_and_save_def globalConfig_PromptToSaveIfChanged_def
      store_position_def store_size_def store_settings_def confirm_disconnect_def
      uiShowModalDialog_def emit_def split: atc_server.splits)

lemma exit_check_is_break:
  "is_break (exit_check i s) = (shouldStop s \<and> wantExit s \<and> activeModalDialogs s = [])"
  by (simp add: exit_check_def)

lemma count_reset_body:
  "count_list (body_calls i s) Reset = (if batch_at_propagation i s = [] then 0 else 1)"
  by (simp add: body_calls_eq split: answer.splits)

lemma count_reset_exit: "count_list (exit_calls i s) Reset = 0"
  by (simp add: exit_calls_eq split: atc_server.splits)

lemma consumers_exit: "filter is_consumer_call (exit_calls i s) = []"
  by (simp add: exit_calls_eq split: atc_server.splits)

lemma reset_notin_exit: "Reset \<notin> set (exit_calls i s)"
  by (simp add: exit_calls_eq split: atc_server.splits)

lemma body_calls_split:
  "body_calls i s =
     (if batch_at_propagation i s = []
      then body_calls i s
      else ([SetWindowTitle (''vice: '' @ window_title i), ProcessEvents, SendUpdates,
             GetUpdates, NoUpdates,
             PositionConfigUpdate (batch_at_propagation i s),
             WmShareUpdates (batch_at_propagation i s),
             AudioProcessUpdates (batch_at_propagation i s)] @
            Reset # drop 9 (body_calls i s)))"
  by (simp add: body_calls_eq)

subsection \<open>Runs of the loop\<close>

lemma loop_step_eq:
  "is_break r \<Longrightarrow> r = Break (state_of r)"
  "\<not> is_break r \<Longrightarrow> r = Continue (state_of r)"
  by (cases r; simp)+

lemma main_loop_step:
  "main_loop s (i # is) =
     (if is_break (frame i s) then Exited (state_of (frame i s))
      else main_loop (state_of (frame i s)) is)"
  by (cases "frame i s") simp_all

declare main_loop.simps(2) [simp del]

lemma main_loop_trace: "\<exists>cs. trace (final_state (main_loop s is)) = trace s @ cs"
proof (induction "is" arbitrary: s)
  case Nil
  show ?case by simp
next
  case (Cons i "is")
  show ?case
  proof (cases "is_break (frame i s)")
    case True
    then show ?thesis by (simp add: main_loop_step frame_trace)
  next
    case False
    from Cons.IH [of "state_of (frame i s)"] False show ?thesis
      by (auto simp: main_loop_step frame_trace)
  qed
qed

lemma loop_calls_Nil: "loop_calls [] s = []"
  by (simp add: loop_calls_def calls_since_def)

lemma loop_calls_Cons:
  "loop_calls (i # is) s =
     (if is_break (frame i s) then frame_calls i s
      else frame_calls i s @ loop_calls is (state_of (frame i s)))"
proof (cases "is_break (frame i s)")
  case True
  then show ?thesis
    by (simp add: loop_calls_def main_loop_step frame_calls_def)
next
  case False
  obtain cs where cs: "trace (final_state (main_loop (state_of (frame i s)) is)) =
      trace (state_of (frame i s)) @ cs"
    using main_loop_trace by blast
  from False show ?thesis
    by (simp add: loop_calls_def calls_since_def main_loop_step frame_calls_eq cs frame_trace)
qed

lemma main_loop_append:
  "main_loop s (xs @ ys) =
     (case main_loop s xs of Exited s' \<Rightarrow> Exited s' | Running s' \<Rightarrow> main_loop s' ys)"
  by (induction xs arbitrary: s) (simp_all add: main_loop_step)

lemma loop_trace: "trace (final_state (main_loop s is)) = trace s @ loop_calls is s"
  using main_loop_trace [of s "is"] by (auto simp: loop_calls_def calls_since_def)

lemma loop_calls_append:
  "loop_calls (xs @ ys) s =
     (case main_loop s xs of
        Exited s' \<Rightarrow> loop_calls xs s
      | Running s' \<Rightarrow> loop_calls xs s @ loop_calls ys s')"
proof (cases "main_loop s xs")
  case (Exited s')
  then show ?thesis by (simp add: loop_calls_def main_loop_append)
next
  case (Running s')
  have "trace (final_state (main_loop s (xs @ ys))) = trace s' @ loop_calls ys s'"
    using Running by (simp add: main_loop_append loop_trace)
  moreover have "trace s' = trace s @ loop_calls xs s"
    using loop_trace [of s xs] Running by simp
  ultimately show ?thesis
    using Running by (simp add: loop_calls_def [of "xs @ ys"] calls_since_def)
qed

subsection \<open>The iterations of a close attempt\<close>

lemma dialog_resolution_simps:
  "activeModalDialogs s = [] \<Longrightarrow> dialog_resolution i s = Pending"
  "activeModalDialogs s \<noteq> [] \<Longrightarrow> dialog_resolution i s = dialog_answer i"
  by (simp_all add: dialog_resolution_def split: list.splits)

lemmas frame_simps = frame_def exit_check_fields exit_check_is_break frame_body_fields
  frame_calls_eq count_body_calls count_exit_calls

lemma pending_frame:
  assumes "wantExit s" and "shouldStop s" and "activeModalDialogs s \<noteq> []"
    and "dialog_answer w = Pending"
  shows "\<not> is_break (frame w s)"
    and "wantExit (state_of (frame w s))"
    and "shouldStop (state_of (frame w s))"
    and "activeModalDialogs (state_of (frame w s)) = activeModalDialogs s"
    and "server (state_of (frame w s)) = server s"
    and "globalConfig (state_of (frame w s)) = globalConfig s"
    and "count_list (frame_calls w s) PromptToSaveIfChanged = 0"
    and "count_list (frame_calls w s) UiShowModalDialog = 0"
    and "count_list (frame_calls w s) Disconnect = 0"
    and "count_list (frame_calls w s) CancelShouldStop = 0"
  using assms by (simp_all add: frame_simps dialog_resolution_simps)

lemma pending_frames:
  assumes "wantExit s" and "shouldStop s" and "activeModalDialogs s \<noteq> []"
    and "\<forall>w\<in>set ws. dialog_answer w = Pending"
  shows "\<exists>s'. main_loop s ws = Running s' \<and> wantExit s' \<and> shouldStop s'
      \<and> activeModalDialogs s' = activeModalDialogs s \<and> server s' = server s
      \<and> globalConfig s' = globalConfig s
      \<and> count_list (loop_calls ws s) PromptToSaveIfChanged = 0
      \<and> count_list (loop_calls ws s) UiShowModalDialog = 0
      \<and> count_list (loop_calls ws s) Disconnect = 0
      \<and> count_list (loop_calls ws s) CancelShouldStop = 0"
  using assms
proof (induction ws arbitrary: s)
  case Nil
  then show ?case by (simp add: loop_calls_Nil)
next
  case (Cons w ws)
  have w: "dialog_answer w = Pending" using Cons.prems(4) by simp
  note f = pending_frame [OF Cons.prems(1-3) w]
  have "activeModalDialogs (state_of (frame w s)) \<noteq> []"
    using f(4) Cons.prems(3) by simp
  moreover have "\<forall>w\<in>set ws. dialog_answer w = Pending" using Cons.prems(4) by simp
  ultimately obtain s' where s': "main_loop (state_of (frame w s)) ws = Running s'"
      "wantExit s'" "shouldStop s'"
      "activeModalDialogs s' = activeModalDialogs (state_of (frame w s))"
      "server s' = server (state_of (frame w s))"
      "globalConfig s' = globalConfig (state_of (frame w s))"
      "count_list (loop_calls ws (state_of (frame w s))) PromptToSaveIfChanged = 0"
      "count_list (loop_calls ws (state_of (frame w s))) UiShowModalDialog = 0"
      "count_list (loop_calls ws (state_of (frame w s))) Disconnect = 0"
      "count_list (loop_calls ws (state_of (frame w s))) CancelShouldStop = 0"
    using Cons.IH [OF f(2) f(3)] by blast
  show ?case
    using f s' by (simp add: main_loop_step loop_calls_Cons)
qed

text \<open>
  The iteration in which a close request is first observed: no exit is wanted yet, no
  dialog is open, and the stop flag is up when the exit check runs.
\<close>

lemma first_observed_frame:
  assumes "\<not> wantExit s" and "activeModalDialogs s = []"
    and "shouldStop s \<or> close_requested i"
  shows "\<not> is_break (frame i s)"
    and "wantExit (state_of (frame i s))"
    and "shouldStop (state_of (frame i s))"
    and "activeModalDialogs (state_of (frame i s)) =
      (if server s = ConnectedATCServer then [DisconnectDialog] else [])"
    and "server (state_of (frame i s)) = server s"
    and "globalConfig (state_of (frame i s)) =
      (globalConfig s)\<lparr>ImGuiSettings := ini_settings i,
         InitialWindowSize := window_size i, InitialWindowPosition := window_position i\<rparr>"
    and "count_list (frame_calls i s) PromptToSaveIfChanged = 1"
    and "count_list (frame_calls i s) UiShowModalDialog =
      (if server s = ConnectedATCServer then 1 else 0)"
    and "count_list (frame_calls i s) Disconnect = 0"
    and "count_list (frame_calls i s) CancelShouldStop = 0"
  using assms by (auto simp: frame_simps dialog_resolution_simps)

lemma yes_frame:
  assumes "wantExit s" and "shouldStop s" and "activeModalDialogs s = [d]"
    and "dialog_answer y = Yes"
  shows "is_break (frame y s)"
    and "server (state_of (frame y s)) = DisconnectedATCServer"
    and "activeModalDialogs (state_of (frame y s)) = []"
    and "globalConfig (state_of (frame y s)) = globalConfig s"
    and "count_list (frame_calls y s) PromptToSaveIfChanged = 0"
    and "count_list (frame_calls y s) UiShowModalDialog = 0"
    and "count_list (frame_calls y s) Disconnect = 1"
    and "count_list (frame_calls y s) CancelShouldStop = 0"
  using assms by (simp_all add: frame_simps dialog_resolution_simps)

lemma no_frame:
  assumes "activeModalDialogs s = d # ds" and "dialog_answer n = No"
  shows "\<not> is_break (frame n s)"
    and "\<not> wantExit (state_of (frame n s))"
    and "\<not> shouldStop (state_of (frame n s))"
    and "server (state_of (frame n s)) = server s"
    and "activeModalDialogs (state_of (frame n s)) = ds"
    and "globalConfig (state_of (frame n s)) = globalConfig s"
    and "count_list (frame_calls n s) PromptToSaveIfChanged = 0"
    and "count_list (frame_calls n s) UiShowModalDialog = 0"
    and "count_list (frame_calls n s) Disconnect = 0"
    and "count_list (frame_calls n s) CancelShouldStop = 1"
  using assms by (simp_all add: frame_simps dialog_resolution_simps)

lemma exit_frame:
  assumes "wantExit s" and "shouldStop s" and "activeModalDialogs s = []"
  shows "is_break (frame j s)"
    and "server (state_of (frame j s)) = server s"
    and "globalConfig (state_of (frame j s)) = globalConfig s"
    and "count_list (frame_calls j s) PromptToSaveIfChanged = 0"
    and "count_list (frame_calls j s) UiShowModalDialog = 0"
    and "count_list (frame_calls j s) Disconnect = 0"
    and "count_list (frame_calls j s) CancelShouldStop = 0"
  using assms by (simp_all add: frame_simps dialog_resolution_simps)

lemma cancelled_attempt:
  assumes "server s = ConnectedATCServer" and "\<not> wantExit s" and "activeModalDialogs s = []"
    and "shouldStop s \<or> close_requested i"
    and "\<forall>w\<in>set ws. dialog_answer w = Pending"
    and "dialog_answer n = No"
  shows "\<exists>s2. main_loop s (i # ws) = Running s2
      \<and> main_loop s (i # ws @ [n]) = Running (state_of (frame n s2))
      \<and> loop_calls (i # ws @ [n]) s =
          frame_calls i s @ loop_calls ws (state_of (frame i s)) @ frame_calls n s2
      \<and> activeModalDialogs s2 = [DisconnectDialog]
      \<and> server s2 = ConnectedATCServer
      \<and> globalConfig s2 = globalConfig (state_of (frame i s))
      \<and> count_list (loop_calls ws (state_of (frame i s))) PromptToSaveIfChanged = 0
      \<and> count_list (loop_calls ws (state_of (frame i s))) UiShowModalDialog = 0
      \<and> count_list (loop_calls ws (state_of (frame i s))) Disconnect = 0
      \<and> count_list (loop_calls ws (state_of (frame i s))) CancelShouldStop = 0"
proof -
  let ?s1 = "state_of (frame i s)"
  note f1 = first_observed_frame [OF assms(2-4)]
  have d1: "activeModalDialogs ?s1 = [DisconnectDialog]"
    using f1(4) assms(1) by simp
  then have ne: "activeModalDialogs ?s1 \<noteq> []" by simp
  obtain s2 where s2: "main_loop ?s1 ws = Running s2"
      "activeModalDialogs s2 = activeModalDialogs ?s1"
      "server s2 = server ?s1"
      "globalConfig s2 = globalConfig ?s1"
      "count_list (loop_calls ws ?s1) PromptToSaveIfChanged = 0"
      "count_list (loop_calls ws ?s1) UiShowModalDialog = 0"
      "count_list (loop_calls ws ?s1) Disconnect = 0"
      "count_list (loop_calls ws ?s1) CancelShouldStop = 0"
    using pending_frames [OF f1(2) f1(3) ne assms(5)] by blast
  have d2: "activeModalDialogs s2 = [DisconnectDialog]" using s2(2) d1 by simp
  note fn = no_frame [OF d2 assms(6)]
  have "main_loop s (i # ws) = Running s2"
    using f1(1) s2(1) by (simp add: main_loop_step)
  moreover have "main_loop s (i # ws @ [n]) = Running (state_of (frame n s2))"
    using f1(1) s2(1) fn(1) by (simp add: main_loop_step main_loop_append)
  moreover have "loop_calls (i # ws @ [n]) s =
      frame_calls i s @ loop_calls ws ?s1 @ frame_calls n s2"
    using f1(1) s2(1) by (simp add: loop_calls_Cons loop_calls_append loop_calls_Nil)
  moreover have "server s2 = ConnectedATCServer"
    using s2(3) f1(5) assms(1) by simp
  ultimately show ?thesis
    using d2 s2(4-8) by blast
qed

subsection \<open>Dialogs and cancellations\<close>

lemma exit_check_controlUpdates:
  "controlUpdates (state_of (exit_check i s)) = controlUpdates s"
  by (simp add: exit_check_def grab_and_save_def globalConfig_PromptToSaveIfChanged_def
      store_position_def store_size_def store_settings_def confirm_disconnect_def
      uiShowModalDialog_def emit_def split: atc_server.splits)

lemma frame_dialog_budget:
  "count_list (frame_calls i s) UiShowModalDialog +
     (if wantExit (state_of (frame i s)) then 0 else 1) \<le>
   count_list (frame_calls i s) CancelShouldStop + (if wantExit s then 0 else 1)"
  by (cases "dialog_resolution i s") (simp_all add: frame_simps)

lemma loop_dialog_budget:
  "count_list (loop_calls is s) UiShowModalDialog +
     (if wantExit (final_state (main_loop s is)) then 0 else 1) \<le>
   count_list (loop_calls is s) CancelShouldStop + (if wantExit s then 0 else (1::nat))"
proof (induction "is" arbitrary: s)
  case Nil
  show ?case by (simp add: loop_calls_Nil)
next
  case (Cons i "is")
  show ?case
  proof (cases "is_break (frame i s)")
    case True
    then show ?thesis
      using frame_dialog_budget [of i s] by (simp add: loop_calls_Cons main_loop_step)
  next
    case False
    then show ?thesis
      using frame_dialog_budget [of i s] Cons.IH [of "state_of (frame i s)"]
      by (simp add: loop_calls_Cons main_loop_step)
  qed
qed

lemma frame_dialog_at_most_once: "count_list (frame_calls i s) UiShowModalDialog \<le> 1"
  by (simp add: frame_simps)

lemma frame_no_dialog_while_wanted:
  "wantExit s \<Longrightarrow> count_list (frame_calls i s) UiShowModalDialog = 0"
  by (cases "dialog_resolution i s") (simp_all add: frame_simps)

lemma count_network_calls:
  "count_list (frame_calls i s) SendUpdates = 1"
  "count_list (frame_calls i s) GetUpdates = 1"
  by (simp_all add: frame_calls_eq body_calls_eq exit_calls_eq
      split: answer.splits atc_server.splits)

subsection \<open>Facts about the concrete states and inputs\<close>

lemmas example_defs = default_config_def quiet_input_def traffic_input_def close_input_def
  yes_input_def no_input_def connected_state_def initial_state_def

lemma stats_period_0: "stats_period dev 0"
  by (simp add: stats_period_def)

lemma connected_state_fields:
  "server connected_state = ConnectedATCServer"
  "\<not> wantExit connected_state"
  "\<not> shouldStop connected_state"
  "activeModalDialogs connected_state = []"
  "controlUpdates connected_state = []"
  "globalConfig connected_state = default_config"
  by (simp_all add: connected_state_def initial_state_def)

lemma example_input_fields:
  "close_requested close_input"
  "dialog_answer quiet_input = Pending"
  "dialog_answer traffic_input = Pending"
  "dialog_answer yes_input = Yes"
  "dialog_answer no_input = No"
  "received traffic_input = [7, 8]"
  "received quiet_input = []"
  "ini_settings close_input = ''[Window][Debug]''"
  "window_size close_input = (1280, 720)"
  "window_position close_input = (100, 50)"
  by (simp_all add: close_input_def quiet_input_def traffic_input_def yes_input_def
      no_input_def)

lemma initial_state_fields:
  "server (initial_state dev cfg) = DisconnectedATCServer"
  "\<not> wantExit (initial_state dev cfg)"
  "activeModalDialogs (initial_state dev cfg) = []"
  "globalConfig (initial_state dev cfg) = cfg"
  by (simp_all add: initial_state_def)

lemma pending_state_fields:
  "wantExit pending_state"
  "shouldStop pending_state"
  "activeModalDialogs pending_state = [DisconnectDialog]"
  "server pending_state = ConnectedATCServer"
  "controlUpdates pending_state = []"
proof -
  have asked: "shouldStop connected_state \<or> close_requested close_input"
    by (simp add: example_input_fields)
  note f1 = first_observed_frame [OF connected_state_fields(2) connected_state_fields(4) asked]
  show "wantExit pending_state" "shouldStop pending_state"
    "activeModalDialogs pending_state = [DisconnectDialog]"
    "server pending_state = ConnectedATCServer"
    using f1 by (simp_all add: pending_state_def connected_state_fields)
  show "controlUpdates pending_state = []"
    by (simp add: pending_state_def frame_def exit_check_controlUpdates frame_body_fields
        close_input_def quiet_input_def)
qed

section \<open>The claims\<close>

subsection \<open>The order of the phases\<close>

text \<open>
  Claim C1. Every iteration runs its phases in one fixed order: title refresh, input pull,
  send, receive, update propagation, draw (panes, then the UI overlay), present, periodic
  telemetry, exit check. The iteration is the composition of the phases, each applied to
  the state its predecessor left, and the calls it appends to the trace are exactly the
  list below, for every state and input: \<^verbatim>\<open>SetWindowTitle\<close>, \<^verbatim>\<open>ProcessEvents\<close>,
  \<^verbatim>\<open>SendUpdates\<close>, \<^verbatim>\<open>GetUpdates\<close>, the propagation calls, then \<^verbatim>\<open>wmDrawPanes\<close> before
  \<^verbatim>\<open>drawUI\<close> (with the closure of a dialog answered there) before \<^verbatim>\<open>imgui.Render\<close> and
  \<^verbatim>\<open>RenderImgui\<close>, then \<^verbatim>\<open>PostRender\<close>, \<^verbatim>\<open>LogStats\<close> when statistics are due, and the
  calls of the exit check. Read phase by phase, the calls are in the claimed order. A phase
  sees what the earlier ones did: the changes received are in the batch the propagation
  phase finds; the changes recorded while drawing are what the update set holds after the
  reset; a close request delivered by the input pull is acted on by the exit check of the
  same iteration; and a "no" given while the UI is drawn makes that exit check inert.
\<close>

theorem frame_phase_order:
  "frame i s =
     exit_check i (telemetry_phase (present_phase (draw_phase i (propagation_phase
       (receive_phase i (send_phase (input_pull i (title_refresh i s))))))))
   \<and> trace (state_of (frame i s)) = trace s @ frame_calls i s
   \<and> remdups_adj (map phase_of (frame_calls i s)) =
       [TitleRefresh, InputPull, SendPhase, ReceivePhase, Propagation, Draw, Present] @
       (if stats_due s then [Telemetry] else []) @ [ExitCheck]
   \<and> (server s = ConnectedATCServer \<longrightarrow>
        batch_at_propagation i s = controlUpdates s @ received i)
   \<and> (close_requested i \<and> \<not> wantExit s \<and> dialog_resolution i s \<noteq> No \<longrightarrow>
        wantExit (state_of (frame i s)))
   \<and> frame_calls i s =
       [SetWindowTitle (''vice: '' @ window_title i), ProcessEvents, SendUpdates, GetUpdates,
        NoUpdates] @
       (if batch_at_propagation i s = [] then []
        else [PositionConfigUpdate (batch_at_propagation i s),
              WmShareUpdates (batch_at_propagation i s),
              AudioProcessUpdates (batch_at_propagation i s), Reset]) @
       [PlatformNewFrame, ImguiNewFrame, WmDrawPanes, DrawUI] @
       (case dialog_resolution i s of
          Pending \<Rightarrow> [] | Yes \<Rightarrow> [Disconnect] | No \<Rightarrow> [CancelShouldStop]) @
       [ImguiRender, RenderImgui, PostRender] @
       (if stats_due s then [LogStats] else []) @
       ShouldStop #
       (if shouldStop (frame_body i s) \<and> \<not> wantExit (frame_body i s)
        then Connected #
          (case server (frame_body i s) of
             ConnectedATCServer \<Rightarrow> [UiShowModalDialog]
           | DisconnectedATCServer \<Rightarrow> []) @
          [SaveIniSettingsToMemory, WindowSize, WindowPosition, PromptToSaveIfChanged]
        else [])
   \<and> filter (\<lambda>c. c = WmDrawPanes \<or> c = DrawUI) (frame_calls i s) = [WmDrawPanes, DrawUI]
   \<and> controlUpdates (state_of (frame i s)) = drawn i
   \<and> (dialog_resolution i s = No \<longrightarrow>
        exit_calls i (frame_body i s) = [ShouldStop] \<and> \<not> wantExit (state_of (frame i s)))"
proof -
  have order: "remdups_adj (map phase_of (frame_calls i s)) =
       [TitleRefresh, InputPull, SendPhase, ReceivePhase, Propagation, Draw, Present] @
       (if stats_due s then [Telemetry] else []) @ [ExitCheck]"
  proof -
    have "last (map phase_of (body_calls i s)) \<noteq> hd (map phase_of (exit_calls i t))" for t
      by (simp add: last_phase_body hd_phase_exit)
    then have "remdups_adj (map phase_of (body_calls i s) @ map phase_of (exit_calls i t)) =
        remdups_adj (map phase_of (body_calls i s)) @ remdups_adj (map phase_of (exit_calls i t))"
      for t
      by (intro remdups_adj_append') simp
    then show ?thesis
      by (simp add: frame_calls_eq phases_body phases_exit)
  qed
  have threaded: "frame i s =
     exit_check i (telemetry_phase (present_phase (draw_phase i (propagation_phase
       (receive_phase i (send_phase (input_pull i (title_refresh i s))))))))"
    by (simp add: frame_def frame_body_def)
  have appended: "trace (state_of (frame i s)) = trace s @ frame_calls i s"
    by (simp add: frame_trace frame_calls_eq)
  have received_seen: "server s = ConnectedATCServer \<longrightarrow>
        batch_at_propagation i s = controlUpdates s @ received i"
    by (simp add: batch_at_propagation_eq)
  have close_seen: "close_requested i \<and> \<not> wantExit s \<and> dialog_resolution i s \<noteq> No \<longrightarrow>
        wantExit (state_of (frame i s))"
    by (simp add: frame_def exit_check_first_observed frame_body_fields)
  have calls: "frame_calls i s =
       [SetWindowTitle (''vice: '' @ window_title i), ProcessEvents, SendUpdates, GetUpdates,
        NoUpdates] @
       (if batch_at_propagation i s = [] then []
        else [PositionConfigUpdate (batch_at_propagation i s),
              WmShareUpdates (batch_at_propagation i s),
              AudioProcessUpdates (batch_at_propagation i s), Reset]) @
       [PlatformNewFrame, ImguiNewFrame, WmDrawPanes, DrawUI] @
       (case dialog_resolution i s of
          Pending \<Rightarrow> [] | Yes \<Rightarrow> [Disconnect] | No \<Rightarrow> [CancelShouldStop]) @
       [ImguiRender, RenderImgui, PostRender] @
       (if stats_due s then [LogStats] else []) @
       ShouldStop #
       (if shouldStop (frame_body i s) \<and> \<not> wantExit (frame_body i s)
        then Connected #
          (case server (frame_body i s) of
             ConnectedATCServer \<Rightarrow> [UiShowModalDialog]
           | DisconnectedATCServer \<Rightarrow> []) @
          [SaveIniSettingsToMemory, WindowSize, WindowPosition, PromptToSaveIfChanged]
        else [])"
    unfolding frame_calls_eq body_calls_eq exit_calls_eq by simp
  have panes_body: "filter (\<lambda>c. c = WmDrawPanes \<or> c = DrawUI) (body_calls i s) =
      [WmDrawPanes, DrawUI]"
    by (simp add: body_calls_eq split: answer.splits)
  have panes_exit: "filter (\<lambda>c. c = WmDrawPanes \<or> c = DrawUI) (exit_calls i t) = []" for t
    by (simp add: exit_calls_eq split: atc_server.splits)
  have panes: "filter (\<lambda>c. c = WmDrawPanes \<or> c = DrawUI) (frame_calls i s) =
      [WmDrawPanes, DrawUI]"
    by (simp add: frame_calls_eq panes_body panes_exit)
  have drawn_kept: "controlUpdates (state_of (frame i s)) = drawn i"
    by (simp add: frame_def exit_check_controlUpdates frame_body_fields)
  have cancel_seen: "dialog_resolution i s = No \<longrightarrow>
        exit_calls i (frame_body i s) = [ShouldStop] \<and> \<not> wantExit (state_of (frame i s))"
    by (simp add: exit_calls_eq frame_def exit_check_fields frame_body_fields)
  from threaded appended order received_seen close_seen calls panes drawn_kept cancel_seen
  show ?thesis
    by (intro conjI)
qed

theorem frame_phase_order_witness:
  "remdups_adj (map phase_of (frame_calls close_input connected_state)) =
     [TitleRefresh, InputPull, SendPhase, ReceivePhase, Propagation, Draw, Present,
      Telemetry, ExitCheck]
   \<and> batch_at_propagation close_input connected_state = []
   \<and> wantExit (state_of (frame close_input connected_state))
   \<and> filter (\<lambda>c. c = WmDrawPanes \<or> c = DrawUI) (frame_calls close_input connected_state) =
       [WmDrawPanes, DrawUI]
   \<and> frame_calls close_input connected_state =
       [SetWindowTitle ''vice: [Disconnected]'', ProcessEvents, SendUpdates, GetUpdates,
        NoUpdates, PlatformNewFrame, ImguiNewFrame, WmDrawPanes, DrawUI, ImguiRender,
        RenderImgui, PostRender, LogStats, ShouldStop, Connected, UiShowModalDialog,
        SaveIniSettingsToMemory, WindowSize, WindowPosition, PromptToSaveIfChanged]"
proof -
  note all = frame_phase_order [of close_input connected_state]
  have due: "stats_due connected_state"
    by (simp add: example_defs stats_due_def stats_period_0)
  have batch: "batch_at_propagation close_input connected_state = []"
    using all [THEN conjunct2, THEN conjunct2, THEN conjunct2, THEN conjunct1]
    by (simp add: connected_state_fields close_input_def quiet_input_def)
  have pending: "dialog_resolution close_input connected_state = Pending"
    by (simp add: dialog_resolution_simps connected_state_fields)
  have observed: "close_requested close_input \<and> \<not> wantExit connected_state
      \<and> dialog_resolution close_input connected_state \<noteq> No"
    by (simp add: pending example_input_fields connected_state_fields)
  have title: "window_title close_input = ''[Disconnected]''"
    by (simp add: close_input_def quiet_input_def)
  from all [THEN conjunct2, THEN conjunct2, THEN conjunct1] due
  have "remdups_adj (map phase_of (frame_calls close_input connected_state)) =
     [TitleRefresh, InputPull, SendPhase, ReceivePhase, Propagation, Draw, Present,
      Telemetry, ExitCheck]"
    by simp
  moreover from all [THEN conjunct2, THEN conjunct2, THEN conjunct2, THEN conjunct2,
      THEN conjunct1] observed
  have "wantExit (state_of (frame close_input connected_state))"
    by blast
  moreover from all [THEN conjunct2, THEN conjunct2, THEN conjunct2, THEN conjunct2,
      THEN conjunct2, THEN conjunct2, THEN conjunct1]
  have "filter (\<lambda>c. c = WmDrawPanes \<or> c = DrawUI) (frame_calls close_input connected_state) =
       [WmDrawPanes, DrawUI]" .
  moreover from all [THEN conjunct2, THEN conjunct2, THEN conjunct2, THEN conjunct2,
      THEN conjunct2, THEN conjunct1]
  have "frame_calls close_input connected_state =
       [SetWindowTitle ''vice: [Disconnected]'', ProcessEvents, SendUpdates, GetUpdates,
        NoUpdates, PlatformNewFrame, ImguiNewFrame, WmDrawPanes, DrawUI, ImguiRender,
        RenderImgui, PostRender, LogStats, ShouldStop, Connected, UiShowModalDialog,
        SaveIniSettingsToMemory, WindowSize, WindowPosition, PromptToSaveIfChanged]"
    by (simp add: batch pending due title frame_body_fields example_input_fields
        connected_state_fields)
  ultimately show ?thesis
    using batch by blast
qed

subsection \<open>Propagation of the update batch\<close>

text \<open>
  Claim C2. When the update batch is not empty at the start of the propagation phase, the
  calls of the iteration that consume or clear it are exactly: \<^verbatim>\<open>positionConfig.Update\<close>,
  then \<^verbatim>\<open>wmShareUpdates\<close>, then \<^verbatim>\<open>audioProcessUpdates\<close>, each with that same batch, and
  then \<^verbatim>\<open>Reset\<close>, after all three.
\<close>

theorem propagation_order:
  "batch_at_propagation i s \<noteq> [] \<Longrightarrow>
   filter is_update_call (frame_calls i s) =
     [PositionConfigUpdate (batch_at_propagation i s),
      WmShareUpdates (batch_at_propagation i s),
      AudioProcessUpdates (batch_at_propagation i s), Reset]"
  by (simp add: frame_calls_eq filter_update_body filter_update_exit)

theorem propagation_order_witness:
  "batch_at_propagation traffic_input connected_state = [7, 8]
   \<and> filter is_update_call (frame_calls traffic_input connected_state) =
       [PositionConfigUpdate [7, 8], WmShareUpdates [7, 8], AudioProcessUpdates [7, 8], Reset]"
proof -
  have b: "batch_at_propagation traffic_input connected_state = [7, 8]"
    by (simp add: batch_at_propagation_eq example_defs)
  with propagation_order [of traffic_input connected_state] show ?thesis by simp
qed

text \<open>
  Claim C3. When the update batch is empty at the start of the propagation phase, the
  iteration calls none of \<^verbatim>\<open>positionConfig.Update\<close>, \<^verbatim>\<open>wmShareUpdates\<close>,
  \<^verbatim>\<open>audioProcessUpdates\<close> and \<^verbatim>\<open>Reset\<close>.
\<close>

theorem empty_batch_untouched:
  "batch_at_propagation i s = [] \<Longrightarrow> filter is_update_call (frame_calls i s) = []"
  by (simp add: frame_calls_eq filter_update_body filter_update_exit)

theorem empty_batch_untouched_witness:
  "batch_at_propagation quiet_input connected_state = []
   \<and> filter is_update_call (frame_calls quiet_input connected_state) = []"
proof -
  have b: "batch_at_propagation quiet_input connected_state = []"
    by (simp add: batch_at_propagation_eq example_defs)
  with empty_batch_untouched [of quiet_input connected_state] show ?thesis by simp
qed

text \<open>
  Claim C9 says that \<^verbatim>\<open>Reset\<close> is called exactly once in every iteration. It is not: an
  iteration that finds the batch empty (here the first iteration of a disconnected session
  in which nothing happens) does not call it.
\<close>

theorem reset_every_frame_counterexample:
  "count_list (frame_calls quiet_input (initial_state False default_config)) Reset \<noteq> 1"
proof -
  have "batch_at_propagation quiet_input (initial_state False default_config) = []"
    by (simp add: batch_at_propagation_eq example_defs)
  then show ?thesis
    by (simp add: frame_calls_eq count_reset_body count_reset_exit)
qed

text \<open>
  Claim C9, amended. \<^verbatim>\<open>Reset\<close> is called at most once per iteration: exactly once when
  the batch is not empty at the start of the propagation phase, and then after the three
  consumers of that iteration have been called and before any other consumer call; not at
  all when the batch is empty.
\<close>

theorem reset_once_when_nonempty:
  "count_list (frame_calls i s) Reset = (if batch_at_propagation i s = [] then 0 else 1)
   \<and> filter is_consumer_call (takeWhile (\<lambda>c. c \<noteq> Reset) (frame_calls i s)) =
       (if batch_at_propagation i s = [] then []
        else [PositionConfigUpdate (batch_at_propagation i s),
              WmShareUpdates (batch_at_propagation i s),
              AudioProcessUpdates (batch_at_propagation i s)])
   \<and> filter is_consumer_call (dropWhile (\<lambda>c. c \<noteq> Reset) (frame_calls i s)) = []"
proof (cases "batch_at_propagation i s = []")
  case True
  then have "Reset \<notin> set (body_calls i s)"
    by (simp add: body_calls_eq split: answer.splits)
  then have none: "Reset \<notin> set (frame_calls i s)"
    by (simp add: frame_calls_eq reset_notin_exit)
  then have tw: "takeWhile (\<lambda>c. c \<noteq> Reset) (frame_calls i s) = frame_calls i s"
    and dw: "dropWhile (\<lambda>c. c \<noteq> Reset) (frame_calls i s) = []"
    by (auto simp: takeWhile_eq_all_conv dropWhile_eq_Nil_conv)
  have "filter is_consumer_call (body_calls i s) = []"
    using True by (simp add: body_calls_eq split: answer.splits)
  with True show ?thesis
    unfolding tw dw
    by (simp add: frame_calls_eq count_reset_body count_reset_exit consumers_exit)
next
  case False
  have rest: "filter is_consumer_call (drop 9 (body_calls i s)) = []"
    using False by (simp add: body_calls_eq split: answer.splits)
  have "frame_calls i s =
      [SetWindowTitle (''vice: '' @ window_title i), ProcessEvents, SendUpdates,
       GetUpdates, NoUpdates,
       PositionConfigUpdate (batch_at_propagation i s),
       WmShareUpdates (batch_at_propagation i s),
       AudioProcessUpdates (batch_at_propagation i s)] @
      Reset # (drop 9 (body_calls i s) @ exit_calls i (frame_body i s))"
    using False body_calls_split [of i s] by (simp add: frame_calls_eq)
  then have tw: "takeWhile (\<lambda>c. c \<noteq> Reset) (frame_calls i s) =
      [SetWindowTitle (''vice: '' @ window_title i), ProcessEvents, SendUpdates,
       GetUpdates, NoUpdates,
       PositionConfigUpdate (batch_at_propagation i s),
       WmShareUpdates (batch_at_propagation i s),
       AudioProcessUpdates (batch_at_propagation i s)]"
    and dw: "dropWhile (\<lambda>c. c \<noteq> Reset) (frame_calls i s) =
      Reset # (drop 9 (body_calls i s) @ exit_calls i (frame_body i s))"
    by simp_all
  from False show ?thesis
    unfolding tw dw
    by (simp add: frame_calls_eq count_reset_body count_reset_exit consumers_exit rest)
qed

subsection \<open>Shutdown\<close>

text \<open>
  Claim C4. The session is connected and the loop is running normally (no exit wanted, no
  dialog open) when a close request is observed; the confirmation dialog then stays
  unanswered for any number of iterations and is finally answered "yes". The loop is still
  running before that answer and has left by \<^verbatim>\<open>break\<close> at the end of the iteration of the
  answer; over the whole attempt the dialog is shown once, \<^verbatim>\<open>server.Disconnect()\<close> is
  called exactly once, the session is replaced by a disconnected one, and
  \<^verbatim>\<open>PromptToSaveIfChanged\<close> is called exactly once.
\<close>

theorem confirmed_disconnect_exits:
  assumes "server s = ConnectedATCServer" and "\<not> wantExit s" and "activeModalDialogs s = []"
    and "shouldStop s \<or> close_requested i"
    and "\<forall>w\<in>set ws. dialog_answer w = Pending"
    and "dialog_answer y = Yes"
  shows "\<not> has_exited (main_loop s (i # ws))
    \<and> has_exited (main_loop s (i # ws @ [y]))
    \<and> server (final_state (main_loop s (i # ws @ [y]))) = DisconnectedATCServer
    \<and> count_list (loop_calls (i # ws @ [y]) s) UiShowModalDialog = 1
    \<and> count_list (loop_calls (i # ws @ [y]) s) Disconnect = 1
    \<and> count_list (loop_calls (i # ws @ [y]) s) PromptToSaveIfChanged = 1"
proof -
  let ?s1 = "state_of (frame i s)"
  note f1 = first_observed_frame [OF assms(2-4)]
  have d1: "activeModalDialogs ?s1 = [DisconnectDialog]"
    using f1(4) assms(1) by simp
  then have ne: "activeModalDialogs ?s1 \<noteq> []" by simp
  obtain s2 where s2: "main_loop ?s1 ws = Running s2" "wantExit s2" "shouldStop s2"
      "activeModalDialogs s2 = activeModalDialogs ?s1"
      "count_list (loop_calls ws ?s1) PromptToSaveIfChanged = 0"
      "count_list (loop_calls ws ?s1) UiShowModalDialog = 0"
      "count_list (loop_calls ws ?s1) Disconnect = 0"
    using pending_frames [OF f1(2) f1(3) ne assms(5)] by blast
  have d2: "activeModalDialogs s2 = [DisconnectDialog]" using s2(4) d1 by simp
  note fy = yes_frame [OF s2(2) s2(3) d2 assms(6)]
  have run: "main_loop s (i # ws @ [y]) = Exited (state_of (frame y s2))"
    using f1(1) s2(1) fy(1) by (simp add: main_loop_step main_loop_append)
  have calls: "loop_calls (i # ws @ [y]) s =
      frame_calls i s @ loop_calls ws ?s1 @ frame_calls y s2"
    using f1(1) s2(1) by (simp add: loop_calls_Cons loop_calls_append loop_calls_Nil)
  have before: "main_loop s (i # ws) = Running s2"
    using f1(1) s2(1) by (simp add: main_loop_step)
  show ?thesis
    unfolding run calls before
    using f1 s2 fy assms(1) by simp
qed

theorem confirmed_disconnect_exits_witness:
  "\<not> has_exited (main_loop connected_state [close_input, quiet_input, traffic_input])
   \<and> has_exited
       (main_loop connected_state [close_input, quiet_input, traffic_input, yes_input])
   \<and> server (final_state
       (main_loop connected_state [close_input, quiet_input, traffic_input, yes_input])) =
       DisconnectedATCServer
   \<and> count_list
       (loop_calls [close_input, quiet_input, traffic_input, yes_input] connected_state)
       UiShowModalDialog = 1
   \<and> count_list
       (loop_calls [close_input, quiet_input, traffic_input, yes_input] connected_state)
       Disconnect = 1
   \<and> count_list
       (loop_calls [close_input, quiet_input, traffic_input, yes_input] connected_state)
       PromptToSaveIfChanged = 1"
proof -
  have pending: "\<forall>w\<in>set [quiet_input, traffic_input]. dialog_answer w = Pending"
    by (simp add: example_input_fields)
  have asked: "shouldStop connected_state \<or> close_requested close_input"
    by (simp add: example_input_fields)
  from confirmed_disconnect_exits [OF connected_state_fields(1) connected_state_fields(2)
      connected_state_fields(4) asked pending example_input_fields(4)]
  show ?thesis by simp
qed

text \<open>
  Claim C6. A close request observed while the session is disconnected opens no dialog:
  the iteration that observes it calls \<^verbatim>\<open>PromptToSaveIfChanged\<close> once and leaves no dialog
  behind, and the loop leaves by \<^verbatim>\<open>break\<close> at the exit check of the following iteration,
  whatever that iteration's input is.
\<close>

theorem disconnected_close_exits:
  assumes "server s = DisconnectedATCServer" and "\<not> wantExit s"
    and "activeModalDialogs s = []" and "shouldStop s \<or> close_requested i"
  shows "\<not> has_exited (main_loop s [i])
    \<and> activeModalDialogs (final_state (main_loop s [i])) = []
    \<and> has_exited (main_loop s [i, j])
    \<and> count_list (loop_calls [i, j] s) UiShowModalDialog = 0
    \<and> count_list (loop_calls [i, j] s) PromptToSaveIfChanged = 1"
proof -
  let ?s1 = "state_of (frame i s)"
  note f1 = first_observed_frame [OF assms(2-4)]
  have d1: "activeModalDialogs ?s1 = []" using f1(4) assms(1) by simp
  note fj = exit_frame [OF f1(2) f1(3) d1, of j]
  have one: "main_loop s [i] = Running ?s1"
    using f1(1) by (simp add: main_loop_step)
  have two: "main_loop s [i, j] = Exited (state_of (frame j ?s1))"
    using f1(1) fj(1) by (simp add: main_loop_step)
  have calls: "loop_calls [i, j] s = frame_calls i s @ frame_calls j ?s1"
    using f1(1) by (simp add: loop_calls_Cons loop_calls_Nil)
  show ?thesis
    unfolding one two calls using f1 fj d1 assms(1) by simp
qed

theorem disconnected_close_exits_witness:
  "\<not> has_exited (main_loop (initial_state False default_config) [close_input])
   \<and> activeModalDialogs
       (final_state (main_loop (initial_state False default_config) [close_input])) = []
   \<and> has_exited (main_loop (initial_state False default_config) [close_input, quiet_input])
   \<and> count_list (loop_calls [close_input, quiet_input] (initial_state False default_config))
       UiShowModalDialog = 0
   \<and> count_list (loop_calls [close_input, quiet_input] (initial_state False default_config))
       PromptToSaveIfChanged = 1"
proof -
  have asked: "shouldStop (initial_state False default_config) \<or> close_requested close_input"
    by (simp add: example_input_fields)
  from disconnected_close_exits [OF initial_state_fields(1) initial_state_fields(2)
      initial_state_fields(3) asked]
  show ?thesis by blast
qed

text \<open>
  Claim C5 says that a close attempt cancelled by answering "no" performs no persistence
  and leaves no side effect on the configuration. It does: in the run below the attempt is
  cancelled and the loop keeps running, yet \<^verbatim>\<open>PromptToSaveIfChanged\<close> has been called and
  \<^verbatim>\<open>globalConfig\<close> is no longer what it was (lines 249-255 run in the iteration that
  first observes the close request, before the dialog is answered).
\<close>

theorem cancelled_close_counterexample:
  "\<not> has_exited (main_loop connected_state [close_input, no_input])
   \<and> \<not> wantExit (final_state (main_loop connected_state [close_input, no_input]))
   \<and> count_list (loop_calls [close_input, no_input] connected_state)
       PromptToSaveIfChanged = 1
   \<and> globalConfig (final_state (main_loop connected_state [close_input, no_input])) \<noteq>
       globalConfig connected_state"
proof -
  have asked: "shouldStop connected_state \<or> close_requested close_input"
    by (simp add: example_input_fields)
  note f1 = first_observed_frame [OF connected_state_fields(2) connected_state_fields(4) asked]
  have none: "\<forall>w\<in>set []. dialog_answer w = Pending" by simp
  obtain s2 where s2: "main_loop connected_state (close_input # []) = Running s2"
      "main_loop connected_state (close_input # [] @ [no_input]) =
        Running (state_of (frame no_input s2))"
      "loop_calls (close_input # [] @ [no_input]) connected_state =
        frame_calls close_input connected_state @
        loop_calls [] (state_of (frame close_input connected_state)) @
        frame_calls no_input s2"
      "activeModalDialogs s2 = [DisconnectDialog]"
      "globalConfig s2 = globalConfig (state_of (frame close_input connected_state))"
    using cancelled_attempt [OF connected_state_fields(1) connected_state_fields(2)
        connected_state_fields(4) asked none example_input_fields(5)]
    by blast
  note fn = no_frame [OF s2(4) example_input_fields(5)]
  have cfg: "globalConfig (state_of (frame no_input s2)) \<noteq> globalConfig connected_state"
    unfolding fn(6) s2(5) f1(6)
    by (simp add: connected_state_fields default_config_def example_input_fields)
  show ?thesis
    using s2(2,3) fn f1 cfg by (simp add: loop_calls_Nil)
qed

text \<open>
  Claim C5, amended. When the close-confirmation dialog is answered "no",
  \<^verbatim>\<open>platform.CancelShouldStop()\<close> is called once, the loop keeps running with
  \<^verbatim>\<open>wantExit\<close> and the stop flag cleared, the session is still connected, no
  \<^verbatim>\<open>Disconnect\<close> call is made and no dialog is left open. The iteration that resolves the
  dialog performs no persistence and leaves \<^verbatim>\<open>globalConfig\<close> as it finds it; the one
  \<^verbatim>\<open>PromptToSaveIfChanged\<close> call of the attempt is the one made when the close request
  was first observed.
\<close>

theorem cancelled_close_attempt:
  assumes "server s = ConnectedATCServer" and "\<not> wantExit s" and "activeModalDialogs s = []"
    and "shouldStop s \<or> close_requested i"
    and "\<forall>w\<in>set ws. dialog_answer w = Pending"
    and "dialog_answer n = No"
  shows "\<not> has_exited (main_loop s (i # ws @ [n]))
    \<and> \<not> wantExit (final_state (main_loop s (i # ws @ [n])))
    \<and> \<not> shouldStop (final_state (main_loop s (i # ws @ [n])))
    \<and> server (final_state (main_loop s (i # ws @ [n]))) = ConnectedATCServer
    \<and> activeModalDialogs (final_state (main_loop s (i # ws @ [n]))) = []
    \<and> count_list (loop_calls (i # ws @ [n]) s) CancelShouldStop = 1
    \<and> count_list (loop_calls (i # ws @ [n]) s) Disconnect = 0
    \<and> count_list (loop_calls (i # ws @ [n]) s) UiShowModalDialog = 1
    \<and> count_list (frame_calls n (final_state (main_loop s (i # ws)))) PromptToSaveIfChanged = 0
    \<and> globalConfig (final_state (main_loop s (i # ws @ [n]))) =
        globalConfig (final_state (main_loop s (i # ws)))
    \<and> count_list (loop_calls (i # ws @ [n]) s) PromptToSaveIfChanged = 1"
proof -
  note f1 = first_observed_frame [OF assms(2-4)]
  obtain s2 where s2: "main_loop s (i # ws) = Running s2"
      "main_loop s (i # ws @ [n]) = Running (state_of (frame n s2))"
      "loop_calls (i # ws @ [n]) s =
        frame_calls i s @ loop_calls ws (state_of (frame i s)) @ frame_calls n s2"
      "activeModalDialogs s2 = [DisconnectDialog]"
      "server s2 = ConnectedATCServer"
      "count_list (loop_calls ws (state_of (frame i s))) PromptToSaveIfChanged = 0"
      "count_list (loop_calls ws (state_of (frame i s))) UiShowModalDialog = 0"
      "count_list (loop_calls ws (state_of (frame i s))) Disconnect = 0"
      "count_list (loop_calls ws (state_of (frame i s))) CancelShouldStop = 0"
    using cancelled_attempt [OF assms] by blast
  note fn = no_frame [OF s2(4) assms(6)]
  show ?thesis
    unfolding s2(1,2,3) using f1 fn s2(5-9) assms(1) by simp
qed

theorem cancelled_close_attempt_witness:
  "\<not> has_exited (main_loop connected_state [close_input, quiet_input, no_input])
   \<and> \<not> wantExit (final_state (main_loop connected_state [close_input, quiet_input, no_input]))
   \<and> server (final_state (main_loop connected_state [close_input, quiet_input, no_input])) =
       ConnectedATCServer
   \<and> count_list (loop_calls [close_input, quiet_input, no_input] connected_state)
       CancelShouldStop = 1
   \<and> count_list (loop_calls [close_input, quiet_input, no_input] connected_state)
       PromptToSaveIfChanged = 1"
proof -
  have pending: "\<forall>w\<in>set [quiet_input]. dialog_answer w = Pending"
    by (simp add: example_input_fields)
  have asked: "shouldStop connected_state \<or> close_requested close_input"
    by (simp add: example_input_fields)
  from cancelled_close_attempt [OF connected_state_fields(1) connected_state_fields(2)
      connected_state_fields(4) asked pending example_input_fields(5)]
  show ?thesis by simp
qed

text \<open>
  Claim C10. In the iteration in which a close request is first observed (no exit wanted
  yet, no dialog open), whether or not the session is connected and before any dialog
  is answered (a dialog just opened is still in the list), the loop stores the current UI
  settings, window size and window position in \<^verbatim>\<open>globalConfig\<close> and calls
  \<^verbatim>\<open>PromptToSaveIfChanged\<close> once. When the attempt is later cancelled by answering "no",
  the stored values and the call remain: the loop keeps running with that configuration.
\<close>

theorem close_observed_persists:
  assumes "\<not> wantExit s" and "activeModalDialogs s = []"
    and "shouldStop s \<or> close_requested i"
  shows "\<not> is_break (frame i s)
    \<and> activeModalDialogs (state_of (frame i s)) =
        (if server s = ConnectedATCServer then [DisconnectDialog] else [])
    \<and> ImGuiSettings (globalConfig (state_of (frame i s))) = ini_settings i
    \<and> InitialWindowSize (globalConfig (state_of (frame i s))) = window_size i
    \<and> InitialWindowPosition (globalConfig (state_of (frame i s))) = window_position i
    \<and> count_list (frame_calls i s) PromptToSaveIfChanged = 1
    \<and> (server s = ConnectedATCServer \<and> (\<forall>w\<in>set ws. dialog_answer w = Pending)
         \<and> dialog_answer n = No \<longrightarrow>
         \<not> has_exited (main_loop s (i # ws @ [n]))
         \<and> \<not> wantExit (final_state (main_loop s (i # ws @ [n])))
         \<and> globalConfig (final_state (main_loop s (i # ws @ [n]))) =
             globalConfig (state_of (frame i s))
         \<and> count_list (loop_calls (i # ws @ [n]) s) PromptToSaveIfChanged = 1)"
proof -
  note f1 = first_observed_frame [OF assms]
  have later: "\<not> has_exited (main_loop s (i # ws @ [n]))
         \<and> \<not> wantExit (final_state (main_loop s (i # ws @ [n])))
         \<and> globalConfig (final_state (main_loop s (i # ws @ [n]))) =
             globalConfig (state_of (frame i s))
         \<and> count_list (loop_calls (i # ws @ [n]) s) PromptToSaveIfChanged = 1"
    if c: "server s = ConnectedATCServer" and p: "\<forall>w\<in>set ws. dialog_answer w = Pending"
      and n: "dialog_answer n = No"
  proof -
    obtain s2 where s2: "main_loop s (i # ws @ [n]) = Running (state_of (frame n s2))"
        "loop_calls (i # ws @ [n]) s =
          frame_calls i s @ loop_calls ws (state_of (frame i s)) @ frame_calls n s2"
        "activeModalDialogs s2 = [DisconnectDialog]"
        "globalConfig s2 = globalConfig (state_of (frame i s))"
        "count_list (loop_calls ws (state_of (frame i s))) PromptToSaveIfChanged = 0"
      using cancelled_attempt [OF c assms p n] by blast
    note fn = no_frame [OF s2(3) n]
    show ?thesis
      unfolding s2(1,2) using f1(7) fn s2(4,5) by simp
  qed
  from f1 later show ?thesis by simp
qed

theorem close_observed_persists_witness:
  "\<not> is_break (frame close_input connected_state)
   \<and> activeModalDialogs (state_of (frame close_input connected_state)) = [DisconnectDialog]
   \<and> globalConfig (state_of (frame close_input connected_state)) =
       \<lparr>ImGuiSettings = ''[Window][Debug]'', InitialWindowSize = (1280, 720),
        InitialWindowPosition = (100, 50)\<rparr>
   \<and> count_list (frame_calls close_input connected_state) PromptToSaveIfChanged = 1
   \<and> \<not> has_exited (main_loop connected_state [close_input, quiet_input, no_input])
   \<and> globalConfig (final_state
         (main_loop connected_state [close_input, quiet_input, no_input])) =
       \<lparr>ImGuiSettings = ''[Window][Debug]'', InitialWindowSize = (1280, 720),
        InitialWindowPosition = (100, 50)\<rparr>
   \<and> count_list (loop_calls [close_input, quiet_input, no_input] connected_state)
       PromptToSaveIfChanged = 1"
proof -
  have asked: "shouldStop connected_state \<or> close_requested close_input"
    by (simp add: example_input_fields)
  note all = close_observed_persists [OF connected_state_fields(2) connected_state_fields(4)
      asked, of "[quiet_input]" no_input]
  have cancel: "server connected_state = ConnectedATCServer
      \<and> (\<forall>w\<in>set [quiet_input]. dialog_answer w = Pending) \<and> dialog_answer no_input = No"
    by (simp add: connected_state_fields example_input_fields)
  have cfg: "globalConfig (state_of (frame close_input connected_state)) =
       \<lparr>ImGuiSettings = ''[Window][Debug]'', InitialWindowSize = (1280, 720),
        InitialWindowPosition = (100, 50)\<rparr>"
    using all by (simp add: example_input_fields)
  from all cancel cfg show ?thesis
    by (simp add: connected_state_fields)
qed

text \<open>
  Claim C7. The disconnect dialog is created at most once per close attempt. One
  iteration creates at most one dialog, and none when it starts with \<^verbatim>\<open>wantExit\<close> set.
  Over any run, from any state, the number of dialogs created is at most the number of
  cancellations plus one (plus nothing when the run starts with \<^verbatim>\<open>wantExit\<close> set): a
  further dialog needs an earlier attempt to have been cancelled. So a run that starts
  inside an attempt and sees no cancellation creates no dialog at all.
\<close>

theorem dialog_once_per_attempt:
  "count_list (frame_calls i s) UiShowModalDialog \<le> 1
   \<and> (wantExit s \<longrightarrow> count_list (frame_calls i s) UiShowModalDialog = 0)
   \<and> count_list (loop_calls is s) UiShowModalDialog \<le>
       count_list (loop_calls is s) CancelShouldStop + (if wantExit s then 0 else 1)
   \<and> (wantExit s \<and> count_list (loop_calls is s) CancelShouldStop = 0 \<longrightarrow>
        count_list (loop_calls is s) UiShowModalDialog = 0)"
proof -
  have budget: "count_list (loop_calls is s) UiShowModalDialog \<le>
       count_list (loop_calls is s) CancelShouldStop + (if wantExit s then 0 else 1)"
    using loop_dialog_budget [of "is" s] by (simp split: if_splits)
  then have "count_list (loop_calls is s) UiShowModalDialog = 0"
    if "wantExit s" "count_list (loop_calls is s) CancelShouldStop = 0"
    using that by simp
  with budget frame_dialog_at_most_once [of i s] frame_no_dialog_while_wanted [of s i]
  show ?thesis by blast
qed

theorem dialog_once_per_attempt_witness:
  "wantExit pending_state
   \<and> count_list (loop_calls [quiet_input, traffic_input] pending_state) CancelShouldStop = 0
   \<and> count_list (loop_calls [quiet_input, traffic_input] pending_state) UiShowModalDialog = 0
   \<and> count_list (frame_calls quiet_input pending_state) UiShowModalDialog = 0"
proof -
  have ne: "activeModalDialogs pending_state \<noteq> []"
    by (simp add: pending_state_fields)
  have p: "\<forall>w\<in>set [quiet_input, traffic_input]. dialog_answer w = Pending"
    by (simp add: example_input_fields)
  have none: "count_list (loop_calls [quiet_input, traffic_input] pending_state)
      CancelShouldStop = 0"
    using pending_frames [OF pending_state_fields(1) pending_state_fields(2) ne p] by blast
  from dialog_once_per_attempt [of quiet_input pending_state "[quiet_input, traffic_input]"]
    none pending_state_fields(1)
  show ?thesis by blast
qed

text \<open>
  Claim C8 says that while a disconnect confirmation is pending the loop never pulls
  network updates or applies update batches. It does both: with the dialog open and
  unanswered, the iteration below calls \<^verbatim>\<open>server.GetUpdates()\<close> and hands the batch it
  received to the three consumers.
\<close>

theorem pending_still_pulls_counterexample:
  "wantExit pending_state
   \<and> activeModalDialogs pending_state = [DisconnectDialog]
   \<and> dialog_answer traffic_input = Pending
   \<and> count_list (frame_calls traffic_input pending_state) GetUpdates = 1
   \<and> filter is_update_call (frame_calls traffic_input pending_state) =
       [PositionConfigUpdate [7, 8], WmShareUpdates [7, 8], AudioProcessUpdates [7, 8], Reset]"
proof -
  have b: "batch_at_propagation traffic_input pending_state = [7, 8]"
    by (simp add: batch_at_propagation_eq pending_state_fields example_input_fields)
  have "filter is_update_call (frame_calls traffic_input pending_state) =
       [PositionConfigUpdate [7, 8], WmShareUpdates [7, 8], AudioProcessUpdates [7, 8], Reset]"
    by (simp add: frame_calls_eq filter_update_body filter_update_exit b)
  then show ?thesis
    by (simp add: pending_state_fields example_input_fields count_network_calls)
qed

text \<open>
  Claim C8, amended. While a disconnect confirmation is pending and unanswered, every
  iteration still runs all its phases: title refresh, input pull, send, receive,
  propagation (a non-empty batch goes to the three consumers and is reset), draw, present
  and telemetry. Only the exit check is inert: it asks \<^verbatim>\<open>ShouldStop\<close> and does nothing
  else, so no dialog is created, nothing is persisted, the loop does not exit and the
  dialog stays open.
\<close>

theorem pending_runs_every_phase:
  assumes "wantExit s" and "shouldStop s" and "activeModalDialogs s \<noteq> []"
    and "dialog_answer w = Pending"
  shows "frame_calls w s =
      [SetWindowTitle (''vice: '' @ window_title w), ProcessEvents, SendUpdates, GetUpdates,
       NoUpdates] @
      (if batch_at_propagation w s = [] then []
       else [PositionConfigUpdate (batch_at_propagation w s),
             WmShareUpdates (batch_at_propagation w s),
             AudioProcessUpdates (batch_at_propagation w s), Reset]) @
      [PlatformNewFrame, ImguiNewFrame, WmDrawPanes, DrawUI, ImguiRender, RenderImgui,
       PostRender] @
      (if stats_due s then [LogStats] else []) @ [ShouldStop]
    \<and> \<not> is_break (frame w s)
    \<and> wantExit (state_of (frame w s))
    \<and> activeModalDialogs (state_of (frame w s)) = activeModalDialogs s
    \<and> controlUpdates (state_of (frame w s)) = drawn w"
proof -
  have r: "dialog_resolution w s = Pending"
    using assms(3,4) by (simp add: dialog_resolution_simps)
  have e: "exit_calls w (frame_body w s) = [ShouldStop]"
    using assms(1,2) r by (simp add: exit_calls_eq frame_body_fields)
  have calls: "frame_calls w s =
      [SetWindowTitle (''vice: '' @ window_title w), ProcessEvents, SendUpdates, GetUpdates,
       NoUpdates] @
      (if batch_at_propagation w s = [] then []
       else [PositionConfigUpdate (batch_at_propagation w s),
             WmShareUpdates (batch_at_propagation w s),
             AudioProcessUpdates (batch_at_propagation w s), Reset]) @
      [PlatformNewFrame, ImguiNewFrame, WmDrawPanes, DrawUI, ImguiRender, RenderImgui,
       PostRender] @
      (if stats_due s then [LogStats] else []) @ [ShouldStop]"
    unfolding frame_calls_eq e by (simp add: body_calls_eq r)
  have upd: "controlUpdates (state_of (frame w s)) = drawn w"
    by (simp add: frame_def exit_check_controlUpdates frame_body_fields)
  note f = pending_frame [OF assms]
  from calls upd f(1,2,4) show ?thesis by blast
qed

theorem pending_runs_every_phase_witness:
  "frame_calls traffic_input pending_state =
      [SetWindowTitle ''vice: [Disconnected]'', ProcessEvents, SendUpdates, GetUpdates,
       NoUpdates, PositionConfigUpdate [7, 8], WmShareUpdates [7, 8],
       AudioProcessUpdates [7, 8], Reset,
       PlatformNewFrame, ImguiNewFrame, WmDrawPanes, DrawUI, ImguiRender, RenderImgui,
       PostRender, ShouldStop]
   \<and> \<not> is_break (frame traffic_input pending_state)
   \<and> activeModalDialogs (state_of (frame traffic_input pending_state)) = [DisconnectDialog]"
proof -
  have ne: "activeModalDialogs pending_state \<noteq> []"
    by (simp add: pending_state_fields)
  have b: "batch_at_propagation traffic_input pending_state = [7, 8]"
    by (simp add: batch_at_propagation_eq pending_state_fields example_input_fields)
  have idx: "frameIndex pending_state = 1" "devmode pending_state = False"
    by (simp_all add: pending_state_def frame_def frame_body_fields exit_check_def
        grab_and_save_def globalConfig_PromptToSaveIfChanged_def store_position_def
        store_size_def store_settings_def confirm_disconnect_def uiShowModalDialog_def
        connected_state_def initial_state_def split: atc_server.splits)
  have due: "\<not> stats_due pending_state"
    by (simp add: stats_due_def idx stats_period_def smod_int_alt_def)
  have title: "window_title traffic_input = ''[Disconnected]''"
    by (simp add: traffic_input_def quiet_input_def)
  from pending_runs_every_phase [OF pending_state_fields(1) pending_state_fields(2) ne
      example_input_fields(3)] b due title pending_state_fields(3)
  show ?thesis by simp
qed

end
